theory Spec2Isabelle
  imports Complex_Main "HOL-Library.Multiset" "HOL-Library.Char_ord" "HOL-Library.List_Lexorder"
begin

section \<open>The measurement log\<close>

text \<open>
  One row of the measurement log of \<^verbatim>\<open>app.py\<close>, with the columns of \<^verbatim>\<open>empty_frame\<close>.
  The numeric columns are float64 in the source, and a missing or unparseable cell is NaN
  (\<^verbatim>\<open>pd.to_numeric(..., errors="coerce")\<close> in \<^verbatim>\<open>prepare_data_frame\<close>); here a numeric cell
  is a \<open>real option\<close>, \<open>None\<close> standing for NaN and \<open>Some x\<close> for a finite float64 of
  value \<open>x\<close>; a difference of two readings is rounded to float64, as the source computes
  it. A timestamp is the
  number of seconds since a fixed epoch, \<open>None\<close> standing for NaT. The frame is taken with
  the column types that \<^verbatim>\<open>prepare_data_frame\<close> gives it. The columns \<^verbatim>\<open>id\<close> and
  \<^verbatim>\<open>notes\<close> are called \<open>id_col\<close> and \<open>notes_col\<close>: \<open>id\<close> is the identity function of HOL and
  \<open>notes\<close> a keyword of Isar.
\<close>

record row =
  id_col :: string
  datetime :: "real option"
  location :: "string option"
  temp_c :: "real option"
  rh :: "real option"
  lux :: "real option"
  uv :: "real option"
  co2 :: "real option"
  outside_time :: "string option"
  outside_temp_c :: "real option"
  outside_rh :: "real option"
  outside_dew_point_c :: "real option"
  notes_col :: "string option"

subsection \<open>Guidelines\<close>

text \<open>The constants of \<^verbatim>\<open>GUIDELINES\<close>, \<^verbatim>\<open>OUTSIDE_TEMP_DELTA_WARN\<close> and
  \<^verbatim>\<open>OUTSIDE_RH_DELTA_WARN\<close>.\<close>

definition temp_min :: real where "temp_min = 15"
definition temp_max :: real where "temp_max = 25"
definition temp_delta_limit :: real where "temp_delta_limit = 4"
definition rh_core_min :: real where "rh_core_min = 45"
definition rh_core_max :: real where "rh_core_max = 55"
definition rh_outer_min :: real where "rh_outer_min = 40"
definition rh_outer_max :: real where "rh_outer_max = 60"
definition rh_delta_limit :: real where "rh_delta_limit = 5"
definition OUTSIDE_TEMP_DELTA_WARN :: real where "OUTSIDE_TEMP_DELTA_WARN = 6"
definition OUTSIDE_RH_DELTA_WARN :: real where "OUTSIDE_RH_DELTA_WARN = 15"

subsection \<open>Comparisons and arithmetic with NaN\<close>

text \<open>
  The subtraction of float64 returns the float64 nearest to the exact difference, a tie
  going to the neighbour with the even significand. \<open>binade n x\<close> is the exponent \<open>e\<close> with
  \<open>2 ^ e \<le> x < 2 ^ (e + 1)\<close>, found by doubling or halving \<open>x\<close> at most \<open>n\<close> times; the
  exponents of float64 lie between \<open>-1074\<close> and \<open>1023\<close>, below \<open>-1022\<close> the spacing of the
  subnormal numbers stays that of the exponent \<open>-1022\<close>. A float64 has 53 significant
  bits, so the spacing at exponent \<open>e\<close> is \<open>2 ^ (e - 52)\<close>. A difference beyond the largest
  finite float64 is an infinity in the source and is outside the model, as infinite
  readings are.
\<close>

fun binade :: "nat \<Rightarrow> real \<Rightarrow> int" where
  "binade 0 x = 0"
| "binade (Suc n) x =
     (if x < 1 then binade n (2 * x) - 1
      else if 2 \<le> x then binade n (x / 2) + 1
      else 0)"

definition pow2 :: "int \<Rightarrow> real" where
  "pow2 e = (if 0 \<le> e then 2 ^ nat e else 1 / 2 ^ nat (- e))"

definition round_half_even :: "real \<Rightarrow> int" where
  "round_half_even y =
     (let f = \<lfloor>y\<rfloor>; d = y - of_int f
      in if d < 1 / 2 then f
         else if 1 / 2 < d then f + 1
         else if even f then f else f + 1)"

definition float64_exponent :: "real \<Rightarrow> int" where
  "float64_exponent x = max (binade 1100 \<bar>x\<bar>) (- 1022)"

definition float64_round :: "real \<Rightarrow> real" where
  "float64_round x =
     (if x = 0 then 0
      else (let ulp = pow2 (float64_exponent x - 52)
            in of_int (round_half_even (x / ulp)) * ulp))"

text \<open>Every comparison with NaN is false; every difference with NaN is NaN. A comparison
  of two float64 values and the absolute value of one are exact.\<close>

fun nan_less :: "real option \<Rightarrow> real option \<Rightarrow> bool" where
  "nan_less (Some a) (Some b) = (a < b)"
| "nan_less _ _ = False"

fun nan_le :: "real option \<Rightarrow> real option \<Rightarrow> bool" where
  "nan_le (Some a) (Some b) = (a \<le> b)"
| "nan_le _ _ = False"

fun nan_minus :: "real option \<Rightarrow> real option \<Rightarrow> real option" where
  "nan_minus (Some a) (Some b) = Some (float64_round (a - b))"
| "nan_minus _ _ = None"

fun nan_abs :: "real option \<Rightarrow> real option" where
  "nan_abs (Some a) = Some \<bar>a\<bar>"
| "nan_abs None = None"

subsection \<open>Flags\<close>

text \<open>
  The source writes a flag as one string \<^verbatim>\<open>"label|level"\<close>, which \<^verbatim>\<open>flags_to_html\<close> splits
  at the bar; here a flag is the pair of its label and its level. A label that the source
  builds with an f-string keeps the interpolated number as a value between the literal
  text before and after it: \<open>Fixed1\<close> stands for the format \<^verbatim>\<open>:.1f\<close> and \<open>Signed1\<close> for
  \<^verbatim>\<open>:+.1f\<close>; the decimal rendering of the float is not modelled.
\<close>

datatype level = warn | danger

datatype label =
    Plain string
  | Fixed1 string real string
  | Signed1 string real string

type_synonym flag = "label \<times> level"

datatype range_status = core | outer | out

subsection \<open>Rows with the shifted columns, evaluated rows\<close>

text \<open>\<^verbatim>\<open>evaluate_records\<close> adds columns to the frame in two rounds: the values of the
  prior record of the same location and the hours since it, then the classification.\<close>

record shifted = row +
  prev_temp :: "real option"
  prev_rh :: "real option"
  prev_time :: "real option"
  delta_hours :: "real option"

record evaluated = shifted +
  range_status :: range_status
  flags :: "flag list"

section \<open>The evaluation engine\<close>

subsection \<open>Sorting by location and time\<close>

text \<open>
  \<^verbatim>\<open>df.sort_values(["location", "datetime"])\<close> sorts by several keys with a stable
  lexicographic sort and puts the missing values of a key last. Strings are compared as
  Python compares them, character by character, a proper prefix first.
\<close>

fun na_last_less :: "('a::linorder) option \<Rightarrow> 'a option \<Rightarrow> bool" where
  "na_last_less (Some a) (Some b) = (a < b)"
| "na_last_less (Some a) None = True"
| "na_last_less None _ = False"

fun na_last_le :: "('a::linorder) option \<Rightarrow> 'a option \<Rightarrow> bool" where
  "na_last_le (Some a) (Some b) = (a \<le> b)"
| "na_last_le _ None = True"
| "na_last_le None (Some b) = False"

definition row_le :: "row \<Rightarrow> row \<Rightarrow> bool" where
  "row_le r s =
     (na_last_less (location r) (location s)
      \<or> (location r = location s \<and> na_last_le (datetime r) (datetime s)))"

fun insort_row :: "row \<Rightarrow> row list \<Rightarrow> row list" where
  "insort_row r [] = [r]"
| "insort_row r (s # ss) = (if row_le r s then r # s # ss else s # insort_row r ss)"

definition sort_values :: "row list \<Rightarrow> row list" where
  "sort_values df = foldr insort_row df []"

subsection \<open>The prior record of the same location\<close>

text \<open>
  \<^verbatim>\<open>df.groupby("location")[col].shift(1)\<close>: every row gets the value that the column has in
  the row before it in its group, and no value when it is the first of its group. The rows
  are visited in the order of the frame; \<open>seen\<close> holds, for every location met so far, the
  value of the column in the last row of that location. A row without a location belongs
  to no group and gets no value.
\<close>

fun groupby_shift ::
  "(row \<Rightarrow> 'a option) \<Rightarrow> (string \<rightharpoonup> 'a option) \<Rightarrow> row list \<Rightarrow> 'a option list" where
  "groupby_shift col seen [] = []"
| "groupby_shift col seen (r # rs) =
     (case location r of
        None \<Rightarrow> None # groupby_shift col seen rs
      | Some l \<Rightarrow>
          (case seen l of None \<Rightarrow> None | Some v \<Rightarrow> v)
            # groupby_shift col (seen(l \<mapsto> col r)) rs)"

text \<open>\<^verbatim>\<open>(df["datetime"] - df["prev_time"]).dt.total_seconds() / 3600\<close>, NaN when either
  timestamp is missing. The source uses the quotient only to compare it with 24. The
  quotient is kept exact here: timestamps are whole nanoseconds, so an exact quotient
  above 24 is above it by more than \<open>2 / 10 ^ 13\<close>, far more than the roundings of the
  source take away, and a quotient of at most 24 stays so when rounded.\<close>

fun hours_between :: "real option \<Rightarrow> real option \<Rightarrow> real option" where
  "hours_between (Some t) (Some p) = Some ((t - p) / 3600)"
| "hours_between _ _ = None"

text \<open>The three shifted columns and \<^verbatim>\<open>delta_hours\<close> are attached to the rows by
  position, as the columns of a frame are.\<close>

fun add_columns ::
  "row list \<Rightarrow> real option list \<Rightarrow> real option list \<Rightarrow> real option list \<Rightarrow> shifted list" where
  "add_columns (r # rs) (pt # pts) (ph # phs) (pd # pds) =
     row.extend r (shifted.fields pt ph pd (hours_between (datetime r) pd))
       # add_columns rs pts phs pds"
| "add_columns _ _ _ _ = []"

subsection \<open>Classification of one row\<close>

text \<open>
  \<^verbatim>\<open>classify\<close> starts from the status \<^verbatim>\<open>core\<close> and no flag, and runs six blocks in turn,
  each of which may change the status and append flags. Every block is a function on the
  pair of the status and the flags so far.
\<close>

type_synonym verdict = "range_status \<times> flag list"

definition temp_block :: "shifted \<Rightarrow> verdict \<Rightarrow> verdict" where
  "temp_block r v =
     (if nan_less (temp_c r) (Some temp_min) \<or> nan_less (Some temp_max) (temp_c r)
      then (out, snd v @ [(Plain ''Temp out of range'', danger)])
      else v)"

definition rh_block :: "shifted \<Rightarrow> verdict \<Rightarrow> verdict" where
  "rh_block r v =
     (if nan_less (rh r) (Some rh_core_min) \<or> nan_less (Some rh_core_max) (rh r)
      then
        (if nan_le (Some rh_outer_min) (rh r) \<and> nan_le (rh r) (Some rh_outer_max)
         then ((if fst v \<noteq> out then outer else fst v),
               snd v @ [(Plain ''RH in outer band'', warn)])
         else (out, snd v @ [(Plain ''RH out of range'', danger)]))
      else v)"

definition mould_block :: "shifted \<Rightarrow> verdict \<Rightarrow> verdict" where
  "mould_block r v =
     (if nan_le (Some 70) (rh r)
      then (fst v, snd v @ [(Plain ''Mould risk'', danger)])
      else v)"

text \<open>The two comparisons with the outside snapshot. A difference that is NaN is not
  greater than the threshold.\<close>

definition outside_temp_block :: "shifted \<Rightarrow> verdict \<Rightarrow> verdict" where
  "outside_temp_block r v =
     (case outside_temp_c r of
        None \<Rightarrow> v
      | Some ot \<Rightarrow>
          (case nan_minus (temp_c r) (Some ot) of
             None \<Rightarrow> v
           | Some delta_temp \<Rightarrow>
               if \<bar>delta_temp\<bar> > OUTSIDE_TEMP_DELTA_WARN
               then (fst v, snd v @ [(Signed1 ''Temp delta vs outside '' delta_temp '' C'', warn)])
               else v))"

definition outside_rh_block :: "shifted \<Rightarrow> verdict \<Rightarrow> verdict" where
  "outside_rh_block r v =
     (case outside_rh r of
        None \<Rightarrow> v
      | Some orh \<Rightarrow>
          (case nan_minus (rh r) (Some orh) of
             None \<Rightarrow> v
           | Some delta_rh \<Rightarrow>
               if \<bar>delta_rh\<bar> > OUTSIDE_RH_DELTA_WARN
               then (fst v, snd v @ [(Signed1 ''RH delta vs outside '' delta_rh ''%'', warn)])
               else v))"

text \<open>The drift since the prior record. \<^verbatim>\<open>temp_delta\<close> is the absolute difference when
  the prior temperature is present and \<open>0\<close> otherwise; it is NaN when the prior temperature
  is present and the temperature of the row is not.\<close>

definition drift_of :: "real option \<Rightarrow> real option \<Rightarrow> real option" where
  "drift_of cur prev =
     (case prev of None \<Rightarrow> Some 0 | Some p \<Rightarrow> nan_abs (nan_minus cur (Some p)))"

definition temp_drift_block :: "shifted \<Rightarrow> verdict \<Rightarrow> verdict" where
  "temp_drift_block r v =
     (case drift_of (temp_c r) (prev_temp r) of
        None \<Rightarrow> v
      | Some temp_delta \<Rightarrow>
          if temp_delta > temp_delta_limit
          then (fst v, snd v @ [(Fixed1 ''Temp drift '' temp_delta '' C/24h'', warn)])
          else v)"

definition rh_drift_block :: "shifted \<Rightarrow> verdict \<Rightarrow> verdict" where
  "rh_drift_block r v =
     (case drift_of (rh r) (prev_rh r) of
        None \<Rightarrow> v
      | Some rh_delta \<Rightarrow>
          if rh_delta > rh_delta_limit
          then (fst v, snd v @ [(Fixed1 ''RH drift '' rh_delta ''%/24h'', warn)])
          else v)"

definition drift_block :: "shifted \<Rightarrow> verdict \<Rightarrow> verdict" where
  "drift_block r v =
     (if nan_le (delta_hours r) (Some 24)
      then rh_drift_block r (temp_drift_block r v)
      else v)"

definition classify :: "shifted \<Rightarrow> verdict" where
  "classify r =
     drift_block r (outside_rh_block r (outside_temp_block r
       (mould_block r (rh_block r (temp_block r (core, []))))))"

subsection \<open>The whole pass\<close>

definition apply_classify :: "shifted \<Rightarrow> evaluated" where
  "apply_classify r =
     shifted.extend r (evaluated.fields (fst (classify r)) (snd (classify r)))"

definition evaluate_records :: "row list \<Rightarrow> evaluated list" where
  "evaluate_records df =
     (if df = [] then []
      else
        (let df = sort_values df;
             prev_temp = groupby_shift temp_c Map.empty df;
             prev_rh = groupby_shift rh Map.empty df;
             prev_time = groupby_shift datetime Map.empty df
         in map apply_classify (add_columns df prev_temp prev_rh prev_time)))"

section \<open>The persistence reconciler\<close>

subsection \<open>Exceptions and artifacts\<close>

text \<open>
  The exceptions that the source catches or lets through. \<open>ClientError\<close> carries the
  error code of the response, when there is one; \<open>OtherError\<close> is any exception that the
  source catches with \<^verbatim>\<open>except Exception\<close> and does not name.
\<close>

datatype exn = EmptyDataError | ClientError "string option" | AttributeError | OtherError

text \<open>
  The content of a CSV artifact, seen through \<^verbatim>\<open>prepare_data_frame(pd.read_csv(...))\<close>:
  no byte at all, bytes without a header line, content that cannot be read (corrupt
  bytes, or a file that cannot be opened), or a table. The rows of a table are the rows
  after the coercions of \<^verbatim>\<open>prepare_data_frame\<close>, so a cell that does not parse is already
  \<open>None\<close>.
\<close>

datatype artifact = Zero_bytes | No_columns | Corrupt | Table "row list"

fun read_csv :: "artifact \<Rightarrow> exn + row list" where
  "read_csv Zero_bytes = Inl EmptyDataError"
| "read_csv No_columns = Inl EmptyDataError"
| "read_csv Corrupt = Inl OtherError"
| "read_csv (Table df) = Inr df"

definition to_csv :: "row list \<Rightarrow> artifact" where
  "to_csv df = Table df"

subsection \<open>The storage configuration\<close>

record spaces_config =
  bucket :: string
  region :: string
  endpoint :: string
  object_key :: string
  access_key_id :: string
  secret_access_key :: string

definition DEFAULT_SPACES_REGION :: string where
  "DEFAULT_SPACES_REGION = ''nyc3''"

definition DEFAULT_SPACES_OBJECT_KEY :: string where
  "DEFAULT_SPACES_OBJECT_KEY = ''environmental-monitor/measurements.csv''"

text \<open>\<^verbatim>\<open>str.strip()\<close> on the whitespace characters of ASCII.\<close>

definition is_space :: "char \<Rightarrow> bool" where
  "is_space c = (let n = (of_char c :: nat) in (9 \<le> n \<and> n \<le> 13) \<or> (28 \<le> n \<and> n \<le> 32))"

definition strip :: "string \<Rightarrow> string" where
  "strip s = rev (dropWhile is_space (rev (dropWhile is_space s)))"

definition or_default :: "string \<Rightarrow> string \<Rightarrow> string" where
  "or_default s d = (if s = [] then d else s)"

definition normalize_spaces_config :: "spaces_config \<Rightarrow> spaces_config" where
  "normalize_spaces_config config =
     \<lparr>bucket = strip (bucket config),
      region = or_default (strip (region config)) DEFAULT_SPACES_REGION,
      endpoint = strip (endpoint config),
      object_key = or_default (strip (object_key config)) DEFAULT_SPACES_OBJECT_KEY,
      access_key_id = strip (access_key_id config),
      secret_access_key = strip (secret_access_key config)\<rparr>"

definition spaces_enabled :: "spaces_config \<Rightarrow> bool" where
  "spaces_enabled config =
     (let active_config = normalize_spaces_config config
      in bucket active_config \<noteq> [] \<and> object_key active_config \<noteq> []
         \<and> access_key_id active_config \<noteq> [] \<and> secret_access_key active_config \<noteq> [])"

subsection \<open>The world outside the process\<close>

text \<open>
  What \<^verbatim>\<open>load_data\<close> and \<^verbatim>\<open>save_data\<close> read and change: the file at \<^verbatim>\<open>DATA_PATH\<close> (\<open>None\<close>
  when it does not exist), the configuration of the session (the one that
  \<^verbatim>\<open>get_spaces_config\<close> finds in the session state, or builds from the environment and the
  saved settings when the session has none yet), whether \<^verbatim>\<open>boto3\<close> could be
  imported, the object at the configured key of the bucket, the exception that the next
  \<^verbatim>\<open>get_object\<close> or \<^verbatim>\<open>put_object\<close> raises for a reason of transport or authorisation
  (\<open>None\<close> when the store answers), and the warnings shown with \<^verbatim>\<open>st.warning\<close> so far.
  The source puts no handler around \<^verbatim>\<open>os.makedirs\<close>, \<^verbatim>\<open>to_csv\<close> to \<^verbatim>\<open>DATA_PATH\<close>,
  \<^verbatim>\<open>os.path.getmtime\<close> and the construction of the client; they are taken to succeed.
\<close>

datatype remote_object = No_such_key | Object "artifact option"

record world =
  local_file :: "artifact option"
  session_config :: spaces_config
  boto3_installed :: bool
  remote :: remote_object
  get_fault :: "exn option"
  put_fault :: "exn option"
  warnings :: "string list"

definition st_warning :: "string \<Rightarrow> world \<Rightarrow> world" where
  "st_warning msg w = w\<lparr>warnings := warnings w @ [msg]\<rparr>"

text \<open>\<^verbatim>\<open>get_spaces_config\<close> stores the normalised configuration back in the session and
  returns it.\<close>

definition get_spaces_config :: "world \<Rightarrow> spaces_config \<times> world" where
  "get_spaces_config w =
     (let c = normalize_spaces_config (session_config w)
      in (c, w\<lparr>session_config := c\<rparr>))"

text \<open>\<^verbatim>\<open>spaces_client\<close> returns a client or \<^verbatim>\<open>None\<close>; the model returns whether there is
  a client.\<close>

definition spaces_client :: "spaces_config \<Rightarrow> world \<Rightarrow> bool" where
  "spaces_client config w =
     (let active_config = normalize_spaces_config config
      in \<not> (\<not> boto3_installed w \<or> \<not> spaces_enabled active_config))"

definition get_object :: "world \<Rightarrow> exn + artifact option" where
  "get_object w =
     (case get_fault w of
        Some e \<Rightarrow> Inl e
      | None \<Rightarrow>
          (case remote w of
             No_such_key \<Rightarrow> Inl (ClientError (Some ''NoSuchKey''))
           | Object body \<Rightarrow> Inr body))"

definition put_object :: "artifact \<Rightarrow> world \<Rightarrow> exn + world" where
  "put_object body w =
     (case put_fault w of
        Some e \<Rightarrow> Inl e
      | None \<Rightarrow> Inr (w\<lparr>remote := Object (Some body)\<rparr>))"

subsection \<open>Loading and saving\<close>

text \<open>\<^verbatim>\<open>load_data_from_spaces\<close> returns a frame or \<^verbatim>\<open>None\<close>, and the time of the last
  change, which no caller of the functions modelled here reads and which is left out.\<close>

definition load_data_from_spaces :: "spaces_config \<Rightarrow> world \<Rightarrow> row list option \<times> world" where
  "load_data_from_spaces config w =
     (let active_config = normalize_spaces_config config in
      if \<not> spaces_client active_config w then (None, w)
      else
        (case get_object w of
           Inl (ClientError error_code) \<Rightarrow>
             if error_code \<in> {Some ''404'', Some ''NoSuchKey'', Some ''NotFound''}
             then (None, w)
             else (None,
               st_warning (''Unable to load CSV from DigitalOcean Spaces: ''
                 @ (case error_code of
                      None \<Rightarrow> ''unknown error''
                    | Some c \<Rightarrow> or_default c ''unknown error'')) w)
         | Inl _ \<Rightarrow> (None, st_warning ''Unable to load CSV from DigitalOcean Spaces.'' w)
         | Inr None \<Rightarrow> (Some [], w)
         | Inr (Some csv_bytes) \<Rightarrow>
             if csv_bytes = Zero_bytes then (Some [], w)
             else
               (case read_csv csv_bytes of
                  Inr df \<Rightarrow> (Some df, w)
                | Inl EmptyDataError \<Rightarrow> (Some [], w)
                | Inl _ \<Rightarrow>
                    (None, st_warning ''Unable to parse CSV from DigitalOcean Spaces.'' w))))"

definition save_data_to_spaces :: "row list \<Rightarrow> spaces_config \<Rightarrow> world \<Rightarrow> bool \<times> world" where
  "save_data_to_spaces df config w =
     (let active_config = normalize_spaces_config config in
      if \<not> spaces_client active_config w then (False, w)
      else
        (case put_object (to_csv df) w of
           Inr w' \<Rightarrow> (True, w')
         | Inl _ \<Rightarrow>
             (False,
              st_warning ''Saved locally, but failed to upload CSV to DigitalOcean Spaces.'' w)))"

text \<open>\<^verbatim>\<open>os.makedirs(...)\<close> and \<^verbatim>\<open>df.to_csv(DATA_PATH, index=False)\<close>.\<close>

definition write_local :: "row list \<Rightarrow> world \<Rightarrow> world" where
  "write_local df w = w\<lparr>local_file := Some (to_csv df)\<rparr>"

text \<open>The first part of \<^verbatim>\<open>load_data\<close>: the local frame, whether the file exists
  (\<^verbatim>\<open>local_modified is not None\<close>), and the world after the read.\<close>

definition read_local :: "world \<Rightarrow> row list \<times> bool \<times> world" where
  "read_local w =
     (case local_file w of
        None \<Rightarrow> ([], False, w)
      | Some file \<Rightarrow>
          (case read_csv file of
             Inr df \<Rightarrow> (df, True, w)
           | Inl EmptyDataError \<Rightarrow> ([], True, write_local [] w)
           | Inl _ \<Rightarrow>
               ([], True,
                st_warning ''Local CSV could not be read. Starting with an empty dataset.'' w)))"

definition load_data :: "world \<Rightarrow> row list \<times> world" where
  "load_data w0 =
     (let (active_config, w1) = get_spaces_config w0;
          (local_df, local_modified, w2) = read_local w1;
          (spaces_df, w3) = load_data_from_spaces active_config w2
      in case spaces_df of
           None \<Rightarrow>
             if local_modified \<and> spaces_enabled active_config
             then (local_df, snd (save_data_to_spaces local_df active_config w3))
             else (local_df, w3)
         | Some spaces_df \<Rightarrow>
             if spaces_df \<noteq> [] then (spaces_df, write_local spaces_df w3)
             else if spaces_df = [] \<and> local_df \<noteq> []
             then (local_df, snd (save_data_to_spaces local_df active_config w3))
             else (spaces_df, w3))"

definition save_data :: "row list \<Rightarrow> world \<Rightarrow> world" where
  "save_data df w0 =
     (let (active_config, w1) = get_spaces_config w0;
          w2 = write_local df w1
      in snd (save_data_to_spaces df active_config w2))"

section \<open>The outside conditions provider\<close>

text \<open>
  A JSON value as \<^verbatim>\<open>json.load\<close> returns it; an object is the list of its members in the
  order of the text, and a later member with the same key replaces an earlier one.
\<close>

datatype json =
    JNull
  | JBool bool
  | JNumber real
  | JString string
  | JArray "json list"
  | JObject "(string \<times> json) list"

text \<open>\<^verbatim>\<open>value.get(key)\<close>: a dictionary answers with the member or \<^verbatim>\<open>None\<close>; any other
  value has no attribute \<^verbatim>\<open>get\<close>.\<close>

fun py_get :: "json \<Rightarrow> string \<Rightarrow> exn + json" where
  "py_get (JObject members) key =
     Inr (case map_of (rev members) key of None \<Rightarrow> JNull | Some v \<Rightarrow> v)"
| "py_get _ key = Inl AttributeError"

text \<open>The truth value of \<^verbatim>\<open>not value\<close>.\<close>

fun falsy :: "json \<Rightarrow> bool" where
  "falsy JNull = True"
| "falsy (JBool b) = (\<not> b)"
| "falsy (JNumber x) = (x = 0)"
| "falsy (JString s) = (s = [])"
| "falsy (JArray xs) = (xs = [])"
| "falsy (JObject members) = (members = [])"

text \<open>
  What \<^verbatim>\<open>urllib.request.urlopen(url, timeout=10)\<close> and \<^verbatim>\<open>json.load(response)\<close> do: the
  request raises (timeout, refused connection, error status raised by \<^verbatim>\<open>urllib\<close>), or
  there is a response with its status and its body; the body is \<open>None\<close> when
  \<^verbatim>\<open>json.load\<close> raises on it.
\<close>

datatype http_result = Urlopen_raises | Response int "json option"

text \<open>The dictionary that \<^verbatim>\<open>fetch_outside_conditions\<close> returns, with the keys
  \<^verbatim>\<open>time\<close>, \<^verbatim>\<open>temp_c\<close>, \<^verbatim>\<open>rh\<close>, \<^verbatim>\<open>dew_point_c\<close>.\<close>

record snapshot =
  snap_time :: json
  snap_temp_c :: json
  snap_rh :: json
  snap_dew_point_c :: json

definition fetch_outside_conditions :: "http_result \<Rightarrow> exn + snapshot option" where
  "fetch_outside_conditions http =
     (case http of
        Urlopen_raises \<Rightarrow> Inr None
      | Response status body \<Rightarrow>
          if status \<noteq> 200 then Inr None
          else
            (case body of
               None \<Rightarrow> Inr None
             | Some data \<Rightarrow>
                 (case py_get data ''current'' of
                    Inl e \<Rightarrow> Inl e
                  | Inr current \<Rightarrow>
                      if falsy current then Inr None
                      else
                        (case py_get current ''time'' of
                           Inl e \<Rightarrow> Inl e
                         | Inr t \<Rightarrow>
                        (case py_get current ''temperature_2m'' of
                           Inl e \<Rightarrow> Inl e
                         | Inr temp \<Rightarrow>
                        (case py_get current ''relative_humidity_2m'' of
                           Inl e \<Rightarrow> Inl e
                         | Inr hum \<Rightarrow>
                        (case py_get current ''dew_point_2m'' of
                           Inl e \<Rightarrow> Inl e
                         | Inr dew \<Rightarrow>
                             Inr (Some \<lparr>snap_time = t, snap_temp_c = temp, snap_rh = hum,
                               snap_dew_point_c = dew\<rparr>))))))))"

section \<open>Sample logs and worlds\<close>

text \<open>A measurement with the required readings only: no light, ultraviolet or
  carbon dioxide reading, no outside snapshot, no note.\<close>

definition reading :: "string \<Rightarrow> string \<Rightarrow> real \<Rightarrow> real \<Rightarrow> real \<Rightarrow> row" where
  "reading i l t te h =
     \<lparr>id_col = i, datetime = Some t, location = Some l, temp_c = Some te, rh = Some h,
      lux = None, uv = None, co2 = None, outside_time = None, outside_temp_c = None,
      outside_rh = None, outside_dew_point_c = None, notes_col = None\<rparr>"

definition log_rh_boundary :: "row list" where
  "log_rh_boundary = [reading ''m1'' ''Workroom'' 0 20 40]"

definition log_rh_warm :: "row list" where
  "log_rh_warm = [reading ''m2'' ''Workroom'' 0 26 60]"

definition log_rh_dry :: "row list" where
  "log_rh_dry = [reading ''m3'' ''Workroom'' 0 20 35]"

definition log_humid :: "row list" where
  "log_humid = [reading ''m4'' ''Compactus'' 0 20 75]"

text \<open>Two readings of one location, one hour, exactly one day and thirty hours apart.\<close>

definition log_drift_1h :: "row list" where
  "log_drift_1h = [reading ''a'' ''Workroom'' 0 20 50, reading ''b'' ''Workroom'' 3600 25 50]"

definition log_drift_24h :: "row list" where
  "log_drift_24h = [reading ''a'' ''Workroom'' 0 20 50, reading ''b'' ''Workroom'' 86400 25 56]"

text \<open>Two readings one hour apart whose temperatures are the float64 values of 1.2 and
  5.2: their exact difference is \<open>4 + 2 ^ -52\<close>, their float64 difference is 4.\<close>

definition log_drift_rounding :: "row list" where
  "log_drift_rounding =
     [reading ''a'' ''Workroom'' 0 (5404319552844595 / 4503599627370496) 50,
      reading ''b'' ''Workroom'' 3600 (5854679515581645 / 1125899906842624) 50]"

definition log_drift_30h :: "row list" where
  "log_drift_30h = [reading ''a'' ''Workroom'' 0 20 50, reading ''b'' ''Workroom'' 108000 25 50]"

text \<open>Two readings of one location one hour apart, the temperature of the first one
  missing.\<close>

definition log_missing_prior :: "row list" where
  "log_missing_prior =
     [(reading ''a'' ''Workroom'' 0 20 50)\<lparr>temp_c := None\<rparr>, reading ''b'' ''Workroom'' 3600 20 50]"

definition log_unsorted :: "row list" where
  "log_unsorted =
     [reading ''b'' ''Workroom'' 3600 25 50, reading ''c'' ''Compactus'' 0 20 42,
      reading ''a'' ''Workroom'' 0 20 50]"

definition log_missing :: "row list" where
  "log_missing = [(reading ''x'' ''Workroom'' 0 0 0)\<lparr>temp_c := None, rh := None\<rparr>]"

text \<open>The drift as the specification words it: the absolute difference to the prior
  value, a missing prior value counting as zero. It is used only to state what the
  specification asks for; \<open>drift_of\<close> is what the source computes.\<close>

definition spec_drift :: "real \<Rightarrow> real option \<Rightarrow> real" where
  "spec_drift cur prior = \<bar>cur - (case prior of None \<Rightarrow> 0 | Some p \<Rightarrow> p)\<bar>"

text \<open>A configuration with which sync is enabled, and one with which it is not.\<close>

definition sample_config :: spaces_config where
  "sample_config =
     \<lparr>bucket = ''archive'', region = '''', endpoint = '''', object_key = '' '',
      access_key_id = ''key'', secret_access_key = ''secret''\<rparr>"

definition no_config :: spaces_config where
  "no_config =
     \<lparr>bucket = '''', region = '''', endpoint = '''', object_key = '''',
      access_key_id = '''', secret_access_key = ''''\<rparr>"

definition local_rows :: "row list" where
  "local_rows =
     [reading ''l1'' ''Workroom'' 0 20 50, reading ''l2'' ''Workroom'' 3600 21 50,
      reading ''l3'' ''Compactus'' 0 19 48]"

definition remote_rows :: "row list" where
  "remote_rows =
     [reading ''r1'' ''Workroom'' 0 20 50, reading ''r2'' ''Workroom'' 3600 21 50,
      reading ''r3'' ''Compactus'' 0 19 48, reading ''r4'' ''Compactus'' 3600 19 49,
      reading ''r5'' ''Special Collections Room'' 0 18 52]"

text \<open>Three local rows and five other rows in the store; a store whose uploads fail;
  a local file that cannot be read and a local file without a byte, with sync off.\<close>

definition world_remote_wins :: world where
  "world_remote_wins =
     \<lparr>local_file = Some (Table local_rows), session_config = sample_config,
      boto3_installed = True, remote = Object (Some (Table remote_rows)),
      get_fault = None, put_fault = None, warnings = []\<rparr>"

definition world_push_fails :: world where
  "world_push_fails =
     \<lparr>local_file = Some (Table local_rows), session_config = sample_config,
      boto3_installed = True, remote = No_such_key,
      get_fault = None, put_fault = Some OtherError, warnings = []\<rparr>"

definition world_corrupt_local :: world where
  "world_corrupt_local =
     \<lparr>local_file = Some Corrupt, session_config = no_config,
      boto3_installed = True, remote = No_such_key,
      get_fault = None, put_fault = None, warnings = []\<rparr>"

definition world_blank_local :: world where
  "world_blank_local =
     \<lparr>local_file = Some Zero_bytes, session_config = no_config,
      boto3_installed = True, remote = No_such_key,
      get_fault = None, put_fault = None, warnings = []\<rparr>"

section \<open>Properties of the float64 rounding\<close>

lemma pow2_pos: "0 < pow2 e"
  by (simp add: pow2_def)

lemma pow2_Suc: "pow2 (e + 1) = 2 * pow2 e"
proof (cases "0 \<le> e")
  case True
  then show ?thesis by (simp add: pow2_def nat_add_distrib)
next
  case False
  then have "nat (- e) = Suc (nat (- e - 1))" by simp
  with False show ?thesis
    by (cases "e = -1") (auto simp: pow2_def)
qed

lemma pow2_pred: "pow2 (e - 1) = pow2 e / 2"
  using pow2_Suc [of "e - 1"] by simp

lemma pow2_0: "pow2 0 = 1"
  by (simp add: pow2_def)

text \<open>With enough fuel, \<open>binade\<close> finds the power of two at or below its argument.\<close>

lemma binade_bounds:
  "0 < x \<Longrightarrow> pow2 (- int n) \<le> x \<Longrightarrow> x < pow2 (int n + 1) \<Longrightarrow>
   pow2 (binade n x) \<le> x \<and> x < pow2 (binade n x + 1)"
proof (induction n arbitrary: x)
  case 0
  then show ?case by (simp add: pow2_0 pow2_Suc)
next
  case (Suc n)
  show ?case
  proof (cases "x < 1")
    case True
    have "- int (Suc n) = - int n - 1" by simp
    then have "pow2 (- int n) / 2 \<le> x"
      using Suc.prems(2) pow2_pred [of "- int n"] by (simp only:)
    then have "pow2 (- int n) \<le> 2 * x" by simp
    moreover have "2 * x < pow2 (int n + 1)"
    proof -
      have "2 * x < 2" using True by simp
      also have "\<dots> = pow2 1" by (simp add: pow2_def)
      also have "\<dots> \<le> pow2 (int n + 1)" by (simp add: pow2_def nat_add_distrib)
      finally show ?thesis .
    qed
    ultimately have "pow2 (binade n (2 * x)) \<le> 2 * x \<and> 2 * x < pow2 (binade n (2 * x) + 1)"
      using Suc.IH [of "2 * x"] Suc.prems(1) by simp
    then show ?thesis
      using True pow2_pred [of "binade n (2 * x)"] pow2_Suc [of "binade n (2 * x)"]
      by simp
  next
    case False
    show ?thesis
    proof (cases "2 \<le> x")
      case True
      have "pow2 (- int n) \<le> x / 2"
      proof -
        have "pow2 (- int n) \<le> pow2 0" by (simp add: pow2_def)
        also have "\<dots> \<le> x / 2" using True by (simp add: pow2_0)
        finally show ?thesis .
      qed
      moreover have "x / 2 < pow2 (int n + 1)"
        using Suc.prems(3) pow2_Suc [of "int n + 1"] by (simp add: add.commute)
      ultimately have "pow2 (binade n (x / 2)) \<le> x / 2 \<and> x / 2 < pow2 (binade n (x / 2) + 1)"
        using Suc.IH [of "x / 2"] Suc.prems(1) by simp
      then show ?thesis
        using True False pow2_Suc [of "binade n (x / 2)"] pow2_Suc [of "binade n (x / 2) + 1"]
        by simp
    next
      case F2: False
      with False show ?thesis by (simp add: pow2_def)
    qed
  qed
qed

lemma round_half_even_nearest: "\<bar>of_int (round_half_even y) - y\<bar> \<le> 1 / 2"
  unfolding round_half_even_def Let_def by (auto simp: abs_if) linarith+

lemma round_half_even_int: "round_half_even (of_int k) = k"
  by (simp add: round_half_even_def)

text \<open>The rounded value is within half a unit in the last place of the exact one.\<close>

lemma float64_round_error:
  "\<bar>float64_round x - x\<bar> \<le> pow2 (float64_exponent x - 52) / 2"
proof (cases "x = 0")
  case True
  then show ?thesis using pow2_pos [of "float64_exponent 0 - 52"] by (simp add: float64_round_def)
next
  case False
  define u where "u = pow2 (float64_exponent x - 52)"
  have u: "0 < u" by (simp add: u_def pow2_pos)
  have "\<bar>of_int (round_half_even (x / u)) - x / u\<bar> \<le> 1 / 2"
    by (rule round_half_even_nearest)
  then have "\<bar>of_int (round_half_even (x / u)) - x / u\<bar> * u \<le> 1 / 2 * u"
    using u by (intro mult_right_mono) simp_all
  moreover have "of_int (round_half_even (x / u)) * u - x
      = (of_int (round_half_even (x / u)) - x / u) * u"
    using u by (simp add: field_simps)
  then have "\<bar>of_int (round_half_even (x / u)) - x / u\<bar> * u
      = \<bar>of_int (round_half_even (x / u)) * u - x\<bar>"
    using u by (simp add: abs_mult)
  ultimately show ?thesis
    using False by (simp add: float64_round_def Let_def u_def [symmetric])
qed

text \<open>The equations that a concrete difference is rounded with.\<close>

lemma binade_unfold:
  "binade n x =
     (if n = 0 then 0
      else if x < 1 then binade (n - 1) (2 * x) - 1
      else if 2 \<le> x then binade (n - 1) (x / 2) + 1
      else 0)"
  by (cases n) simp_all

lemmas float64_defs = float64_round_def float64_exponent_def pow2_def round_half_even_def

text \<open>Some float64 values: the nearest to one tenth, one third, 1.2 and 5.2; a tie
  above \<open>2 ^ 53\<close> goes to the even neighbour; an integer of this size is its own
  float64.\<close>

lemma float64_round_examples:
  "float64_round (1 / 10) = 3602879701896397 / 36028797018963968"
  "float64_round (1 / 3) = 6004799503160661 / 18014398509481984"
  "float64_round (12 / 10) = 5404319552844595 / 4503599627370496"
  "float64_round (52 / 10) = 5854679515581645 / 1125899906842624"
  "float64_round (9007199254740993) = 9007199254740992"
  "float64_round (9007199254740995) = 9007199254740996"
  "float64_round (- 25) = - 25"
  by (simp_all add: float64_defs binade_unfold)

text \<open>Below the smallest normal number the spacing is \<open>2 ^ -1074\<close>: half of it rounds to
  zero, three halves of it to twice it.\<close>

lemma float64_round_subnormal:
  "float64_round (pow2 (- 1075)) = 0"
  "float64_round (3 * pow2 (- 1075)) = pow2 (- 1073)"
  by (simp_all add: float64_defs binade_unfold)

section \<open>Properties of the classification\<close>

lemmas guideline_defs =
  temp_min_def temp_max_def temp_delta_limit_def rh_core_min_def rh_core_max_def
  rh_outer_min_def rh_outer_max_def rh_delta_limit_def
  OUTSIDE_TEMP_DELTA_WARN_def OUTSIDE_RH_DELTA_WARN_def

subsection \<open>What each block does to the status and to the flags\<close>

lemma temp_block_fst:
  "fst (temp_block r v) =
     (if nan_less (temp_c r) (Some 15) \<or> nan_less (Some 25) (temp_c r) then out else fst v)"
  by (simp add: temp_block_def temp_min_def temp_max_def)

lemma temp_block_flags:
  "x \<in> set (snd (temp_block r v)) \<longleftrightarrow>
     x \<in> set (snd v) \<or>
     ((nan_less (temp_c r) (Some 15) \<or> nan_less (Some 25) (temp_c r))
      \<and> x = (Plain ''Temp out of range'', danger))"
  by (auto simp: temp_block_def temp_min_def temp_max_def)

lemma rh_block_fst:
  "fst (rh_block r v) =
     (if nan_less (rh r) (Some 45) \<or> nan_less (Some 55) (rh r)
      then (if nan_le (Some 40) (rh r) \<and> nan_le (rh r) (Some 60)
            then (if fst v = out then out else outer) else out)
      else fst v)"
  by (simp add: rh_block_def guideline_defs)

lemma rh_block_flags:
  "x \<in> set (snd (rh_block r v)) \<longleftrightarrow>
     x \<in> set (snd v) \<or>
     ((nan_less (rh r) (Some 45) \<or> nan_less (Some 55) (rh r))
      \<and> (if nan_le (Some 40) (rh r) \<and> nan_le (rh r) (Some 60)
          then x = (Plain ''RH in outer band'', warn)
          else x = (Plain ''RH out of range'', danger)))"
  by (auto simp: rh_block_def guideline_defs)

lemma mould_block_fst: "fst (mould_block r v) = fst v"
  by (simp add: mould_block_def)

lemma mould_block_flags:
  "x \<in> set (snd (mould_block r v)) \<longleftrightarrow>
     x \<in> set (snd v) \<or> (nan_le (Some 70) (rh r) \<and> x = (Plain ''Mould risk'', danger))"
  by (auto simp: mould_block_def)

lemma outside_temp_block_fst: "fst (outside_temp_block r v) = fst v"
  by (simp add: outside_temp_block_def split: option.splits)

lemma outside_temp_block_flags:
  "x \<in> set (snd (outside_temp_block r v)) \<longleftrightarrow>
     x \<in> set (snd v) \<or>
     (\<exists>t ot. temp_c r = Some t \<and> outside_temp_c r = Some ot \<and> 6 < \<bar>float64_round (t - ot)\<bar>
        \<and> x = (Signed1 ''Temp delta vs outside '' (float64_round (t - ot)) '' C'', warn))"
  by (cases "temp_c r"; cases "outside_temp_c r")
     (auto simp: outside_temp_block_def OUTSIDE_TEMP_DELTA_WARN_def)

lemma outside_rh_block_fst: "fst (outside_rh_block r v) = fst v"
  by (simp add: outside_rh_block_def split: option.splits)

lemma outside_rh_block_flags:
  "x \<in> set (snd (outside_rh_block r v)) \<longleftrightarrow>
     x \<in> set (snd v) \<or>
     (\<exists>h oh. rh r = Some h \<and> outside_rh r = Some oh \<and> 15 < \<bar>float64_round (h - oh)\<bar>
        \<and> x = (Signed1 ''RH delta vs outside '' (float64_round (h - oh)) ''%'', warn))"
  by (cases "rh r"; cases "outside_rh r")
     (auto simp: outside_rh_block_def OUTSIDE_RH_DELTA_WARN_def)

lemma drift_of_Some:
  "drift_of cur prev = Some d \<longleftrightarrow>
     (prev = None \<and> d = 0) \<or> (\<exists>c p. cur = Some c \<and> prev = Some p \<and> d = \<bar>float64_round (c - p)\<bar>)"
  by (cases cur; cases prev) (auto simp: drift_of_def)

lemma temp_drift_block_fst: "fst (temp_drift_block r v) = fst v"
  by (simp add: temp_drift_block_def split: option.splits)

lemma rh_drift_block_fst: "fst (rh_drift_block r v) = fst v"
  by (simp add: rh_drift_block_def split: option.splits)

lemma temp_drift_block_flags:
  "x \<in> set (snd (temp_drift_block r v)) \<longleftrightarrow>
     x \<in> set (snd v) \<or>
     (\<exists>t p. temp_c r = Some t \<and> prev_temp r = Some p \<and> 4 < \<bar>float64_round (t - p)\<bar>
        \<and> x = (Fixed1 ''Temp drift '' \<bar>float64_round (t - p)\<bar> '' C/24h'', warn))"
  by (cases "temp_c r"; cases "prev_temp r")
     (auto simp: temp_drift_block_def drift_of_def temp_delta_limit_def)

lemma rh_drift_block_flags:
  "x \<in> set (snd (rh_drift_block r v)) \<longleftrightarrow>
     x \<in> set (snd v) \<or>
     (\<exists>h p. rh r = Some h \<and> prev_rh r = Some p \<and> 5 < \<bar>float64_round (h - p)\<bar>
        \<and> x = (Fixed1 ''RH drift '' \<bar>float64_round (h - p)\<bar> ''%/24h'', warn))"
  by (cases "rh r"; cases "prev_rh r")
     (auto simp: rh_drift_block_def drift_of_def rh_delta_limit_def)

lemma drift_block_fst: "fst (drift_block r v) = fst v"
  by (simp add: drift_block_def temp_drift_block_fst rh_drift_block_fst)

lemma drift_block_flags:
  "x \<in> set (snd (drift_block r v)) \<longleftrightarrow>
     x \<in> set (snd v) \<or>
     (nan_le (delta_hours r) (Some 24) \<and>
       ((\<exists>t p. temp_c r = Some t \<and> prev_temp r = Some p \<and> 4 < \<bar>float64_round (t - p)\<bar>
          \<and> x = (Fixed1 ''Temp drift '' \<bar>float64_round (t - p)\<bar> '' C/24h'', warn))
        \<or> (\<exists>h p. rh r = Some h \<and> prev_rh r = Some p \<and> 5 < \<bar>float64_round (h - p)\<bar>
          \<and> x = (Fixed1 ''RH drift '' \<bar>float64_round (h - p)\<bar> ''%/24h'', warn))))"
  unfolding drift_block_def
  by (simp add: rh_drift_block_flags temp_drift_block_flags)

text \<open>The status of a row depends on its temperature and its humidity only; its flags
  are exactly those of the six blocks.\<close>

lemma classify_fst:
  "fst (classify r) =
     (if nan_less (rh r) (Some 45) \<or> nan_less (Some 55) (rh r)
      then (if nan_le (Some 40) (rh r) \<and> nan_le (rh r) (Some 60)
            then (if nan_less (temp_c r) (Some 15) \<or> nan_less (Some 25) (temp_c r)
                  then out else outer)
            else out)
      else (if nan_less (temp_c r) (Some 15) \<or> nan_less (Some 25) (temp_c r)
            then out else core))"
  unfolding classify_def
  by (simp add: drift_block_fst outside_rh_block_fst outside_temp_block_fst mould_block_fst
      rh_block_fst temp_block_fst)

lemma classify_flags:
  "x \<in> set (snd (classify r)) \<longleftrightarrow>
     ((nan_less (temp_c r) (Some 15) \<or> nan_less (Some 25) (temp_c r))
        \<and> x = (Plain ''Temp out of range'', danger))
     \<or> ((nan_less (rh r) (Some 45) \<or> nan_less (Some 55) (rh r))
        \<and> (if nan_le (Some 40) (rh r) \<and> nan_le (rh r) (Some 60)
            then x = (Plain ''RH in outer band'', warn)
            else x = (Plain ''RH out of range'', danger)))
     \<or> (nan_le (Some 70) (rh r) \<and> x = (Plain ''Mould risk'', danger))
     \<or> (\<exists>t ot. temp_c r = Some t \<and> outside_temp_c r = Some ot \<and> 6 < \<bar>float64_round (t - ot)\<bar>
        \<and> x = (Signed1 ''Temp delta vs outside '' (float64_round (t - ot)) '' C'', warn))
     \<or> (\<exists>h oh. rh r = Some h \<and> outside_rh r = Some oh \<and> 15 < \<bar>float64_round (h - oh)\<bar>
        \<and> x = (Signed1 ''RH delta vs outside '' (float64_round (h - oh)) ''%'', warn))
     \<or> (nan_le (delta_hours r) (Some 24) \<and>
       ((\<exists>t p. temp_c r = Some t \<and> prev_temp r = Some p \<and> 4 < \<bar>float64_round (t - p)\<bar>
          \<and> x = (Fixed1 ''Temp drift '' \<bar>float64_round (t - p)\<bar> '' C/24h'', warn))
        \<or> (\<exists>h p. rh r = Some h \<and> prev_rh r = Some p \<and> 5 < \<bar>float64_round (h - p)\<bar>
          \<and> x = (Fixed1 ''RH drift '' \<bar>float64_round (h - p)\<bar> ''%/24h'', warn))))"
  unfolding classify_def
  by (simp only: drift_block_flags outside_rh_block_flags outside_temp_block_flags
      mould_block_flags rh_block_flags temp_block_flags) simp

section \<open>Properties of the pass over the log\<close>

subsection \<open>The order of the rows\<close>

lemma na_last_le_refl: "na_last_le a a"
  by (cases a) auto

lemma na_last_less_irrefl: "\<not> na_last_less a a"
  by (cases a) auto

lemma na_last_less_trans:
  "na_last_less a b \<Longrightarrow> na_last_less b c \<Longrightarrow> na_last_less a c"
  by (cases a; cases b; cases c) auto

lemma na_last_le_trans: "na_last_le a b \<Longrightarrow> na_last_le b c \<Longrightarrow> na_last_le a c"
  by (cases a; cases b; cases c) auto

lemma na_last_less_asym: "na_last_less a b \<Longrightarrow> \<not> na_last_less b a"
  by (cases a; cases b) auto

lemma na_last_less_linear: "na_last_less a b \<or> a = b \<or> na_last_less b a"
  by (cases a; cases b) auto

lemma na_last_le_linear: "na_last_le a b \<or> na_last_le b a"
  by (cases a; cases b) auto

lemma row_le_linear: "row_le r s \<or> row_le s r"
  using na_last_less_linear [of "location r" "location s"]
    na_last_le_linear [of "datetime r" "datetime s"]
  by (auto simp: row_le_def)

lemma row_le_trans: "row_le r s \<Longrightarrow> row_le s t \<Longrightarrow> row_le r t"
  unfolding row_le_def
  by (metis na_last_less_trans na_last_le_trans)

lemma set_insort_row: "set (insort_row r xs) = insert r (set xs)"
  by (induction xs) auto

lemma mset_insort_row: "mset (insort_row r xs) = add_mset r (mset xs)"
  by (induction xs) auto

lemma sorted_insort_row:
  "sorted_wrt row_le xs \<Longrightarrow> sorted_wrt row_le (insort_row r xs)"
proof (induction xs)
  case Nil
  then show ?case by simp
next
  case (Cons s ss)
  show ?case
  proof (cases "row_le r s")
    case True
    then have "\<forall>y\<in>set ss. row_le r y"
      using Cons.prems row_le_trans by auto
    with True Cons.prems show ?thesis by simp
  next
    case False
    then have "row_le s r" using row_le_linear by blast
    with False Cons show ?thesis by (auto simp: set_insort_row)
  qed
qed

lemma mset_sort_values: "mset (sort_values df) = mset df"
  unfolding sort_values_def by (induction df) (simp_all add: mset_insort_row)

lemma sorted_sort_values: "sorted_wrt row_le (sort_values df)"
  unfolding sort_values_def by (induction df) (simp_all add: sorted_insort_row)

lemma length_sort_values: "length (sort_values df) = length df"
  using mset_sort_values [of df] by (metis size_mset)

text \<open>In the sorted log the rows of one location stand together.\<close>

lemma sorted_location_contiguous:
  assumes "sorted_wrt row_le xs" "j < k" "k < i" "i < length xs"
    and "location (xs ! j) = location (xs ! i)"
  shows "location (xs ! k) = location (xs ! i)"
proof -
  have jk: "row_le (xs ! j) (xs ! k)" and ki: "row_le (xs ! k) (xs ! i)"
    using assms by (auto simp: sorted_wrt_iff_nth_less)
  show ?thesis
  proof (rule ccontr)
    assume ne: "location (xs ! k) \<noteq> location (xs ! i)"
    with ki have "na_last_less (location (xs ! k)) (location (xs ! i))"
      by (auto simp: row_le_def)
    moreover from jk ne assms(5) have "na_last_less (location (xs ! i)) (location (xs ! k))"
      by (auto simp: row_le_def)
    ultimately show False using na_last_less_asym by blast
  qed
qed

subsection \<open>The shifted columns\<close>

lemma length_groupby_shift: "length (groupby_shift col seen rs) = length rs"
  by (induction rs arbitrary: seen) (auto split: option.splits)

lemma groupby_shift_no_location:
  "i < length rs \<Longrightarrow> location (rs ! i) = None \<Longrightarrow> groupby_shift col seen rs ! i = None"
proof (induction rs arbitrary: seen i)
  case Nil
  then show ?case by simp
next
  case (Cons r rs)
  then show ?case by (cases i) (auto split: option.splits)
qed

lemma groupby_shift_first:
  "i < length rs \<Longrightarrow> location (rs ! i) = Some l \<Longrightarrow> seen l = None \<Longrightarrow>
   \<forall>j<i. location (rs ! j) \<noteq> Some l \<Longrightarrow> groupby_shift col seen rs ! i = None"
proof (induction rs arbitrary: seen i)
  case Nil
  then show ?case by simp
next
  case (Cons r rs)
  show ?case
  proof (cases i)
    case 0
    with Cons.prems show ?thesis by simp
  next
    case (Suc k)
    with Cons.prems have k: "k < length rs" "location (rs ! k) = Some l"
      "\<forall>j<k. location (rs ! j) \<noteq> Some l" and r: "location r \<noteq> Some l"
      by auto
    have "groupby_shift col seen' rs ! k = None" if "seen' l = None" for seen'
      using Cons.IH [of k seen'] k that by blast
    with r Cons.prems(3) Suc show ?thesis
      by (auto split: option.splits)
  qed
qed

lemma groupby_shift_adjacent:
  "Suc j < length rs \<Longrightarrow> location (rs ! j) = Some l \<Longrightarrow> location (rs ! Suc j) = Some l \<Longrightarrow>
   groupby_shift col seen rs ! Suc j = col (rs ! j)"
proof (induction rs arbitrary: seen j)
  case Nil
  then show ?case by simp
next
  case (Cons r rs)
  show ?case
  proof (cases j)
    case 0
    with Cons.prems show ?thesis by (cases rs) auto
  next
    case (Suc k)
    with Cons.prems have "groupby_shift col seen' rs ! Suc k = col (rs ! k)" for seen'
      using Cons.IH [of k seen'] by simp
    with Suc show ?thesis by (simp split: option.splits)
  qed
qed

lemma hours_between_le:
  "nan_le (hours_between a b) (Some x) \<longleftrightarrow>
     (\<exists>t p. a = Some t \<and> b = Some p \<and> (t - p) / 3600 \<le> x)"
  by (cases a; cases b) auto

subsection \<open>The rows of the result\<close>

lemma length_add_columns:
  "length pts = length rs \<Longrightarrow> length phs = length rs \<Longrightarrow> length pds = length rs \<Longrightarrow>
   length (add_columns rs pts phs pds) = length rs"
proof (induction rs pts phs pds rule: add_columns.induct)
  case (1 r rs pt pts ph phs pd pds)
  then show ?case by simp
qed auto

lemma nth_add_columns:
  "length pts = length rs \<Longrightarrow> length phs = length rs \<Longrightarrow> length pds = length rs \<Longrightarrow>
   i < length rs \<Longrightarrow>
   add_columns rs pts phs pds ! i =
     row.extend (rs ! i)
       (shifted.fields (pts ! i) (phs ! i) (pds ! i) (hours_between (datetime (rs ! i)) (pds ! i)))"
proof (induction rs pts phs pds arbitrary: i rule: add_columns.induct)
  case (1 r rs pt pts ph phs pd pds)
  then show ?case by (cases i) auto
qed auto

lemma length_evaluate_records: "length (evaluate_records df) = length df"
  by (simp add: evaluate_records_def Let_def length_add_columns length_groupby_shift
      length_sort_values)

lemma nth_evaluate_records:
  assumes "i < length df"
  shows "evaluate_records df ! i =
     apply_classify (row.extend (sort_values df ! i)
       (shifted.fields
          (groupby_shift temp_c Map.empty (sort_values df) ! i)
          (groupby_shift rh Map.empty (sort_values df) ! i)
          (groupby_shift datetime Map.empty (sort_values df) ! i)
          (hours_between (datetime (sort_values df ! i))
             (groupby_shift datetime Map.empty (sort_values df) ! i))))"
proof -
  from assms have ne: "df \<noteq> []" by auto
  from assms have i: "i < length (sort_values df)" by (simp add: length_sort_values)
  show ?thesis
    using i ne
    by (simp add: evaluate_records_def Let_def length_add_columns length_groupby_shift
        nth_add_columns)
qed

lemma truncate_apply_classify: "row.truncate (apply_classify (row.extend r x)) = r"
  by (simp add: apply_classify_def row.defs shifted.defs evaluated.defs)

lemma fields_apply_classify:
  "temp_c (apply_classify s) = temp_c s" "rh (apply_classify s) = rh s"
  "location (apply_classify s) = location s" "datetime (apply_classify s) = datetime s"
  "prev_temp (apply_classify s) = prev_temp s" "prev_rh (apply_classify s) = prev_rh s"
  "prev_time (apply_classify s) = prev_time s" "delta_hours (apply_classify s) = delta_hours s"
  "outside_temp_c (apply_classify s) = outside_temp_c s"
  "outside_rh (apply_classify s) = outside_rh s"
  "range_status (apply_classify s) = fst (classify s)"
  "flags (apply_classify s) = snd (classify s)"
  by (simp_all add: apply_classify_def shifted.defs evaluated.defs)

lemma fields_extend:
  "temp_c (row.extend r (shifted.fields a b c d)) = temp_c r"
  "rh (row.extend r (shifted.fields a b c d)) = rh r"
  "location (row.extend r (shifted.fields a b c d)) = location r"
  "datetime (row.extend r (shifted.fields a b c d)) = datetime r"
  "outside_temp_c (row.extend r (shifted.fields a b c d)) = outside_temp_c r"
  "outside_rh (row.extend r (shifted.fields a b c d)) = outside_rh r"
  "prev_temp (row.extend r (shifted.fields a b c d)) = a"
  "prev_rh (row.extend r (shifted.fields a b c d)) = b"
  "prev_time (row.extend r (shifted.fields a b c d)) = c"
  "delta_hours (row.extend r (shifted.fields a b c d)) = d"
  by (simp_all add: row.defs shifted.defs)

lemma truncate_evaluate_records: "map row.truncate (evaluate_records df) = sort_values df"
  by (rule nth_equalityI)
     (simp_all add: length_evaluate_records length_sort_values nth_evaluate_records
        truncate_apply_classify)

lemma evaluate_records_member:
  "e \<in> set (evaluate_records df) \<Longrightarrow> \<exists>s. e = apply_classify s"
  by (auto simp: evaluate_records_def Let_def split: if_splits)

lemma location_evaluate_records:
  "i < length df \<Longrightarrow> location (evaluate_records df ! i) = location (sort_values df ! i)"
  by (simp add: nth_evaluate_records fields_apply_classify fields_extend)

lemma delta_hours_first:
  assumes "i < length df"
    and "location (evaluate_records df ! i) = None
         \<or> (\<forall>j<i. location (evaluate_records df ! j) \<noteq> location (evaluate_records df ! i))"
  shows "delta_hours (evaluate_records df ! i) = None"
proof -
  let ?s = "sort_values df"
  have i: "i < length ?s" using assms(1) by (simp add: length_sort_values)
  have "groupby_shift datetime Map.empty ?s ! i = None"
  proof (cases "location (?s ! i)")
    case None
    with i show ?thesis by (rule groupby_shift_no_location)
  next
    case (Some l)
    with assms have "\<forall>j<i. location (?s ! j) \<noteq> Some l"
      by (auto simp: location_evaluate_records)
    with i Some show ?thesis by (intro groupby_shift_first) simp_all
  qed
  then show ?thesis
    using assms(1) by (simp add: nth_evaluate_records fields_apply_classify fields_extend)
qed

lemma adjacent_prior:
  assumes "Suc j < length df"
    and "location (evaluate_records df ! j) = location (evaluate_records df ! Suc j)"
    and "location (evaluate_records df ! j) \<noteq> None"
  shows "prev_temp (evaluate_records df ! Suc j) = temp_c (evaluate_records df ! j)"
    and "prev_rh (evaluate_records df ! Suc j) = rh (evaluate_records df ! j)"
    and "prev_time (evaluate_records df ! Suc j) = datetime (evaluate_records df ! j)"
    and "delta_hours (evaluate_records df ! Suc j) =
           hours_between (datetime (evaluate_records df ! Suc j)) (datetime (evaluate_records df ! j))"
proof -
  let ?s = "sort_values df"
  from assms(1) have j: "j < length df" by simp
  from assms(3) obtain l where l: "location (evaluate_records df ! j) = Some l" by auto
  have sj: "Suc j < length ?s" "location (?s ! j) = Some l" "location (?s ! Suc j) = Some l"
    using assms(1,2) j l by (simp_all add: length_sort_values location_evaluate_records)
  have shift: "groupby_shift col Map.empty ?s ! Suc j = col (?s ! j)" for col :: "row \<Rightarrow> real option"
    using sj by (rule groupby_shift_adjacent)
  show "prev_temp (evaluate_records df ! Suc j) = temp_c (evaluate_records df ! j)"
    "prev_rh (evaluate_records df ! Suc j) = rh (evaluate_records df ! j)"
    "prev_time (evaluate_records df ! Suc j) = datetime (evaluate_records df ! j)"
    "delta_hours (evaluate_records df ! Suc j) =
           hours_between (datetime (evaluate_records df ! Suc j)) (datetime (evaluate_records df ! j))"
    using assms(1) j
    by (simp_all add: nth_evaluate_records fields_apply_classify fields_extend shift)
qed

text \<open>A record that has an earlier record of its location has one right before it, so
  a record of the evaluated log either follows a record of its location or is the first
  of its location.\<close>

lemma evaluated_location_contiguous:
  assumes "j < i" and "i < length df"
    and "location (evaluate_records df ! j) = location (evaluate_records df ! i)"
  shows "location (evaluate_records df ! (i - 1)) = location (evaluate_records df ! i)"
proof (cases "j = i - 1")
  case True
  with assms(3) show ?thesis by simp
next
  case False
  with assms(1) have jk: "j < i - 1" and ki: "i - 1 < i" by simp_all
  have len: "i < length (sort_values df)" using assms(2) by (simp add: length_sort_values)
  have "location (sort_values df ! j) = location (sort_values df ! i)"
    using assms by (simp add: location_evaluate_records)
  with sorted_sort_values jk ki len
  have "location (sort_values df ! (i - 1)) = location (sort_values df ! i)"
    by (rule sorted_location_contiguous)
  with assms(1,2) show ?thesis by (simp add: location_evaluate_records)
qed

lemma drift_flags_of_fields:
  assumes "e \<in> set (evaluate_records df)"
  shows "(Fixed1 ''Temp drift '' v '' C/24h'', warn) \<in> set (flags e) \<longleftrightarrow>
           (\<exists>c p. nan_le (delta_hours e) (Some 24) \<and> temp_c e = Some c \<and> prev_temp e = Some p
              \<and> v = \<bar>float64_round (c - p)\<bar> \<and> 4 < v)"
    and "(Fixed1 ''RH drift '' v ''%/24h'', warn) \<in> set (flags e) \<longleftrightarrow>
           (\<exists>c p. nan_le (delta_hours e) (Some 24) \<and> rh e = Some c \<and> prev_rh e = Some p
              \<and> v = \<bar>float64_round (c - p)\<bar> \<and> 5 < v)"
proof -
  from assms obtain s where e: "e = apply_classify s"
    using evaluate_records_member by blast
  show "(Fixed1 ''Temp drift '' v '' C/24h'', warn) \<in> set (flags e) \<longleftrightarrow>
           (\<exists>c p. nan_le (delta_hours e) (Some 24) \<and> temp_c e = Some c \<and> prev_temp e = Some p
              \<and> v = \<bar>float64_round (c - p)\<bar> \<and> 4 < v)"
    unfolding e by (auto simp: fields_apply_classify classify_flags)
  show "(Fixed1 ''RH drift '' v ''%/24h'', warn) \<in> set (flags e) \<longleftrightarrow>
           (\<exists>c p. nan_le (delta_hours e) (Some 24) \<and> rh e = Some c \<and> prev_rh e = Some p
              \<and> v = \<bar>float64_round (c - p)\<bar> \<and> 5 < v)"
    unfolding e by (auto simp: fields_apply_classify classify_flags)
qed

text \<open>The definitions that a concrete log is evaluated with.\<close>

lemmas evaluate_defs =
  evaluate_records_def sort_values_def row_le_def row.defs shifted.defs evaluated.defs
  apply_classify_def classify_def drift_block_def temp_drift_block_def rh_drift_block_def
  drift_of_def outside_rh_block_def outside_temp_block_def mould_block_def rh_block_def
  temp_block_def guideline_defs reading_def float64_defs binade_unfold

lemma head_member: "df \<noteq> [] \<Longrightarrow> evaluate_records df ! 0 \<in> set (evaluate_records df)"
  by (simp add: length_evaluate_records)

section \<open>Claims about the evaluation engine\<close>

text \<open>
  Claim C1. Let \<open>h\<close> be the relative humidity of a record of the evaluated log. If \<open>h\<close> is
  outside the core band \<open>[45, 55]\<close> and inside the outer band \<open>[40, 60]\<close>, both bands with
  their ends, then the status of the record is \<open>outer\<close>, or \<open>out\<close> when its temperature is
  out of range, and the record has the flag "RH in outer band" of level \<open>warn\<close>. If \<open>h\<close>
  is outside the outer band, the status is \<open>out\<close> and the record has the flag
  "RH out of range" of level \<open>danger\<close>.
\<close>

theorem humidity_classification:
  assumes "e \<in> set (evaluate_records df)" and "rh e = Some h"
  shows "((h < 45 \<or> 55 < h) \<and> 40 \<le> h \<and> h \<le> 60 \<longrightarrow>
            range_status e =
              (if nan_less (temp_c e) (Some 15) \<or> nan_less (Some 25) (temp_c e) then out else outer)
            \<and> (Plain ''RH in outer band'', warn) \<in> set (flags e))
       \<and> (h < 40 \<or> 60 < h \<longrightarrow>
            range_status e = out \<and> (Plain ''RH out of range'', danger) \<in> set (flags e))"
proof -
  from assms(1) obtain s where e: "e = apply_classify s"
    using evaluate_records_member by blast
  with assms(2) have h: "rh s = Some h" by (simp add: fields_apply_classify)
  show ?thesis
    unfolding e by (auto simp: fields_apply_classify classify_fst classify_flags h)
qed

theorem humidity_classification_witness:
  "range_status (evaluate_records log_rh_boundary ! 0) = outer
   \<and> (Plain ''RH in outer band'', warn) \<in> set (flags (evaluate_records log_rh_boundary ! 0))
   \<and> range_status (evaluate_records log_rh_warm ! 0) = out
   \<and> (Plain ''RH in outer band'', warn) \<in> set (flags (evaluate_records log_rh_warm ! 0))
   \<and> range_status (evaluate_records log_rh_dry ! 0) = out
   \<and> (Plain ''RH out of range'', danger) \<in> set (flags (evaluate_records log_rh_dry ! 0))"
proof -
  have m: "evaluate_records log_rh_boundary ! 0 \<in> set (evaluate_records log_rh_boundary)"
    "evaluate_records log_rh_warm ! 0 \<in> set (evaluate_records log_rh_warm)"
    "evaluate_records log_rh_dry ! 0 \<in> set (evaluate_records log_rh_dry)"
    by (simp_all add: head_member log_rh_boundary_def log_rh_warm_def log_rh_dry_def)
  have h: "rh (evaluate_records log_rh_boundary ! 0) = Some 40"
    "rh (evaluate_records log_rh_warm ! 0) = Some 60"
    "rh (evaluate_records log_rh_dry ! 0) = Some 35"
    by (simp_all add: log_rh_boundary_def log_rh_warm_def log_rh_dry_def evaluate_defs)
  have t: "temp_c (evaluate_records log_rh_boundary ! 0) = Some 20"
    "temp_c (evaluate_records log_rh_warm ! 0) = Some 26"
    by (simp_all add: log_rh_boundary_def log_rh_warm_def evaluate_defs)
  show ?thesis
    using humidity_classification [OF m(1) h(1)] humidity_classification [OF m(2) h(2)]
      humidity_classification [OF m(3) h(3)]
    by (simp add: t)
qed

text \<open>
  Claim C2, amended. For two records that follow each other in the evaluated log and
  have the same location, the later one has the flag "Temp drift v C/24h" of level
  \<open>warn\<close> exactly when both timestamps are present and at most 24 hours apart, both
  temperatures are present, and \<open>v\<close>, the absolute value of the float64 difference of the
  temperatures, is greater than 4; the same holds for "RH drift v%/24h" with the
  humidities and the limit 5. When the prior value is missing the drift counts as zero
  and there is no flag. A record without a location, or with no earlier record of its
  location, has no drift flag; by \<open>evaluated_location_contiguous\<close> every other record
  follows a record of its location.
\<close>

theorem drift_flags:
  "(Suc j < length df
      \<and> location (evaluate_records df ! j) = location (evaluate_records df ! Suc j)
      \<and> location (evaluate_records df ! j) \<noteq> None \<longrightarrow>
      ((Fixed1 ''Temp drift '' v '' C/24h'', warn) \<in> set (flags (evaluate_records df ! Suc j)) \<longleftrightarrow>
         (\<exists>t1 t2 p c. datetime (evaluate_records df ! j) = Some t1
            \<and> datetime (evaluate_records df ! Suc j) = Some t2 \<and> (t2 - t1) / 3600 \<le> 24
            \<and> temp_c (evaluate_records df ! j) = Some p
            \<and> temp_c (evaluate_records df ! Suc j) = Some c \<and> v = \<bar>float64_round (c - p)\<bar> \<and> 4 < v))
      \<and> ((Fixed1 ''RH drift '' v ''%/24h'', warn) \<in> set (flags (evaluate_records df ! Suc j)) \<longleftrightarrow>
         (\<exists>t1 t2 p c. datetime (evaluate_records df ! j) = Some t1
            \<and> datetime (evaluate_records df ! Suc j) = Some t2 \<and> (t2 - t1) / 3600 \<le> 24
            \<and> rh (evaluate_records df ! j) = Some p
            \<and> rh (evaluate_records df ! Suc j) = Some c \<and> v = \<bar>float64_round (c - p)\<bar> \<and> 5 < v)))
   \<and> (i < length df
      \<and> (location (evaluate_records df ! i) = None
          \<or> (\<forall>k<i. location (evaluate_records df ! k) \<noteq> location (evaluate_records df ! i))) \<longrightarrow>
      (Fixed1 ''Temp drift '' v '' C/24h'', warn) \<notin> set (flags (evaluate_records df ! i))
      \<and> (Fixed1 ''RH drift '' v ''%/24h'', warn) \<notin> set (flags (evaluate_records df ! i)))"
proof (intro conjI impI)
  assume a: "Suc j < length df
      \<and> location (evaluate_records df ! j) = location (evaluate_records df ! Suc j)
      \<and> location (evaluate_records df ! j) \<noteq> None"
  then have mem: "evaluate_records df ! Suc j \<in> set (evaluate_records df)"
    by (simp add: length_evaluate_records)
  from a have a1: "Suc j < length df"
    and a2: "location (evaluate_records df ! j) = location (evaluate_records df ! Suc j)"
    and a3: "location (evaluate_records df ! j) \<noteq> None" by blast+
  note pr = adjacent_prior [OF a1 a2 a3]
  show "(Fixed1 ''Temp drift '' v '' C/24h'', warn) \<in> set (flags (evaluate_records df ! Suc j)) \<longleftrightarrow>
         (\<exists>t1 t2 p c. datetime (evaluate_records df ! j) = Some t1
            \<and> datetime (evaluate_records df ! Suc j) = Some t2 \<and> (t2 - t1) / 3600 \<le> 24
            \<and> temp_c (evaluate_records df ! j) = Some p
            \<and> temp_c (evaluate_records df ! Suc j) = Some c \<and> v = \<bar>float64_round (c - p)\<bar> \<and> 4 < v)"
    unfolding drift_flags_of_fields(1) [OF mem] pr hours_between_le
    by auto
  show "(Fixed1 ''RH drift '' v ''%/24h'', warn) \<in> set (flags (evaluate_records df ! Suc j)) \<longleftrightarrow>
         (\<exists>t1 t2 p c. datetime (evaluate_records df ! j) = Some t1
            \<and> datetime (evaluate_records df ! Suc j) = Some t2 \<and> (t2 - t1) / 3600 \<le> 24
            \<and> rh (evaluate_records df ! j) = Some p
            \<and> rh (evaluate_records df ! Suc j) = Some c \<and> v = \<bar>float64_round (c - p)\<bar> \<and> 5 < v)"
    unfolding drift_flags_of_fields(2) [OF mem] pr hours_between_le
    by auto
next
  assume b: "i < length df
      \<and> (location (evaluate_records df ! i) = None
          \<or> (\<forall>k<i. location (evaluate_records df ! k) \<noteq> location (evaluate_records df ! i)))"
  then have mem: "evaluate_records df ! i \<in> set (evaluate_records df)"
    by (simp add: length_evaluate_records)
  from b have dh: "delta_hours (evaluate_records df ! i) = None"
    by (intro delta_hours_first) simp_all
  show "(Fixed1 ''Temp drift '' v '' C/24h'', warn) \<notin> set (flags (evaluate_records df ! i))"
    by (simp add: drift_flags_of_fields(1) [OF mem] dh)
  show "(Fixed1 ''RH drift '' v ''%/24h'', warn) \<notin> set (flags (evaluate_records df ! i))"
    by (simp add: drift_flags_of_fields(2) [OF mem] dh)
qed

theorem drift_flags_witness:
  "(Fixed1 ''Temp drift '' 5 '' C/24h'', warn) \<in> set (flags (evaluate_records log_drift_1h ! 1))
   \<and> (Fixed1 ''RH drift '' 5 ''%/24h'', warn) \<notin> set (flags (evaluate_records log_drift_1h ! 1))
   \<and> (Fixed1 ''Temp drift '' 5 '' C/24h'', warn) \<in> set (flags (evaluate_records log_drift_24h ! 1))
   \<and> (Fixed1 ''RH drift '' 6 ''%/24h'', warn) \<in> set (flags (evaluate_records log_drift_24h ! 1))
   \<and> (Fixed1 ''Temp drift '' 5 '' C/24h'', warn) \<notin> set (flags (evaluate_records log_drift_30h ! 1))
   \<and> (Fixed1 ''Temp drift '' 5 '' C/24h'', warn) \<notin> set (flags (evaluate_records log_drift_1h ! 0))
   \<and> (Fixed1 ''Temp drift '' 4 '' C/24h'', warn)
        \<notin> set (flags (evaluate_records log_drift_rounding ! 1))
   \<and> (Fixed1 ''Temp drift '' (18014398509481985 / 4503599627370496) '' C/24h'', warn)
        \<notin> set (flags (evaluate_records log_drift_rounding ! 1))"
proof -
  have a: "datetime (evaluate_records log_drift_1h ! 0) = Some 0"
    "datetime (evaluate_records log_drift_1h ! Suc 0) = Some 3600"
    "temp_c (evaluate_records log_drift_1h ! 0) = Some 20"
    "temp_c (evaluate_records log_drift_1h ! Suc 0) = Some 25"
    "rh (evaluate_records log_drift_1h ! 0) = Some 50"
    "rh (evaluate_records log_drift_1h ! Suc 0) = Some 50"
    "location (evaluate_records log_drift_1h ! 0) = Some ''Workroom''"
    "location (evaluate_records log_drift_1h ! Suc 0) = Some ''Workroom''"
    "length log_drift_1h = 2"
    by (simp_all add: log_drift_1h_def evaluate_defs)
  have b: "datetime (evaluate_records log_drift_30h ! 0) = Some 0"
    "datetime (evaluate_records log_drift_30h ! Suc 0) = Some 108000"
    "temp_c (evaluate_records log_drift_30h ! 0) = Some 20"
    "temp_c (evaluate_records log_drift_30h ! Suc 0) = Some 25"
    "location (evaluate_records log_drift_30h ! 0) = Some ''Workroom''"
    "location (evaluate_records log_drift_30h ! Suc 0) = Some ''Workroom''"
    "length log_drift_30h = 2"
    by (simp_all add: log_drift_30h_def evaluate_defs)
  have c: "datetime (evaluate_records log_drift_24h ! 0) = Some 0"
    "datetime (evaluate_records log_drift_24h ! Suc 0) = Some 86400"
    "temp_c (evaluate_records log_drift_24h ! 0) = Some 20"
    "temp_c (evaluate_records log_drift_24h ! Suc 0) = Some 25"
    "rh (evaluate_records log_drift_24h ! 0) = Some 50"
    "rh (evaluate_records log_drift_24h ! Suc 0) = Some 56"
    "location (evaluate_records log_drift_24h ! 0) = Some ''Workroom''"
    "location (evaluate_records log_drift_24h ! Suc 0) = Some ''Workroom''"
    "length log_drift_24h = 2"
    by (simp_all add: log_drift_24h_def evaluate_defs)
  have d: "datetime (evaluate_records log_drift_rounding ! 0) = Some 0"
    "datetime (evaluate_records log_drift_rounding ! Suc 0) = Some 3600"
    "temp_c (evaluate_records log_drift_rounding ! 0)
       = Some (5404319552844595 / 4503599627370496)"
    "temp_c (evaluate_records log_drift_rounding ! Suc 0)
       = Some (5854679515581645 / 1125899906842624)"
    "location (evaluate_records log_drift_rounding ! 0) = Some ''Workroom''"
    "location (evaluate_records log_drift_rounding ! Suc 0) = Some ''Workroom''"
    "length log_drift_rounding = 2"
    by (simp_all add: log_drift_rounding_def evaluate_defs)
  have r: "float64_round 5 = 5" "float64_round 6 = 6"
    "float64_round (5854679515581645 / 1125899906842624 - 5404319552844595 / 4503599627370496)
       = 4"
    "float64_round (18014398509481985 / 4503599627370496) = 4"
    by (simp_all add: float64_defs binade_unfold)
  show ?thesis
    using drift_flags [of 0 log_drift_1h 5 0] drift_flags [of 0 log_drift_30h 5 0]
      drift_flags [of 0 log_drift_24h 5 0] drift_flags [of 0 log_drift_24h 6 0]
      drift_flags [of 0 log_drift_rounding 4 0]
      drift_flags [of 0 log_drift_rounding "18014398509481985 / 4503599627370496" 0]
    by (simp add: a b c d r del: eq_divide_eq_numeral1 divide_eq_eq_numeral1)
qed

text \<open>
  The claim as the specification words it takes a missing prior value as zero, so that a
  record at 20 degrees, one hour after a record of the same location whose temperature
  is missing, would drift by 20 and be flagged. The source takes the drift itself as
  zero in that case, and the record gets no flag.
\<close>

theorem drift_missing_prior_counterexample:
  "location (evaluate_records log_missing_prior ! 0) = location (evaluate_records log_missing_prior ! 1)
   \<and> delta_hours (evaluate_records log_missing_prior ! 1) = Some 1
   \<and> temp_c (evaluate_records log_missing_prior ! 1) = Some 20
   \<and> prev_temp (evaluate_records log_missing_prior ! 1) = None
   \<and> spec_drift 20 None > 4
   \<and> (Fixed1 ''Temp drift '' (spec_drift 20 None) '' C/24h'', warn)
        \<notin> set (flags (evaluate_records log_missing_prior ! 1))
   \<and> flags (evaluate_records log_missing_prior ! 1) = []"
  by (simp add: log_missing_prior_def evaluate_defs spec_drift_def)

text \<open>
  Claim C7. A record of the evaluated log whose relative humidity is at least 70 has the
  flag "Mould risk" of level \<open>danger\<close>; the block that adds it does so whatever the
  status and the flags before it are.
\<close>

theorem mould_risk_flag:
  "(e \<in> set (evaluate_records df) \<and> rh e = Some h \<and> 70 \<le> h \<longrightarrow>
      (Plain ''Mould risk'', danger) \<in> set (flags e))
   \<and> (rh r = Some h \<and> 70 \<le> h \<longrightarrow>
      (Plain ''Mould risk'', danger) \<in> set (snd (mould_block r (status, fl))))"
proof -
  have "(Plain ''Mould risk'', danger) \<in> set (flags e)"
    if "e \<in> set (evaluate_records df)" "rh e = Some h" "70 \<le> h"
  proof -
    from that(1) obtain s where e: "e = apply_classify s"
      using evaluate_records_member by blast
    with that(2) have "rh s = Some h" by (simp add: fields_apply_classify)
    with that(3) show ?thesis
      unfolding e by (simp add: fields_apply_classify classify_flags)
  qed
  then show ?thesis by (auto simp: mould_block_flags)
qed

theorem mould_risk_flag_witness:
  "rh (evaluate_records log_humid ! 0) = Some 75
   \<and> (Plain ''Mould risk'', danger) \<in> set (flags (evaluate_records log_humid ! 0))
   \<and> (Plain ''Mould risk'', danger)
        \<in> set (snd (mould_block (row.extend (reading ''m4'' ''Compactus'' 0 20 75)
             (shifted.fields None None None None)) (core, [])))"
proof -
  have m: "evaluate_records log_humid ! 0 \<in> set (evaluate_records log_humid)"
    by (simp add: head_member log_humid_def)
  have h: "rh (evaluate_records log_humid ! 0) = Some 75"
    by (simp add: log_humid_def evaluate_defs)
  have r: "rh (row.extend (reading ''m4'' ''Compactus'' 0 20 75)
             (shifted.fields None None None None)) = Some 75"
    by (simp add: reading_def row.defs shifted.defs)
  show ?thesis
    using mould_risk_flag [of "evaluate_records log_humid ! 0" log_humid 75
        "row.extend (reading ''m4'' ''Compactus'' 0 20 75) (shifted.fields None None None None)"
        core "[]"] m h r
    by simp
qed

text \<open>
  Claim C8. A record of the evaluated log whose temperature is within \<open>[15, 25]\<close> and
  whose relative humidity is within \<open>[45, 55]\<close>, without outside temperature and outside
  humidity, and with no earlier record of the same location, has the status \<open>core\<close> and
  no flag.
\<close>

theorem compliant_first_reading:
  assumes "i < length df"
    and "temp_c (evaluate_records df ! i) = Some t" and "15 \<le> t" and "t \<le> 25"
    and "rh (evaluate_records df ! i) = Some h" and "45 \<le> h" and "h \<le> 55"
    and "outside_temp_c (evaluate_records df ! i) = None"
    and "outside_rh (evaluate_records df ! i) = None"
    and "\<forall>j<i. location (evaluate_records df ! j) \<noteq> location (evaluate_records df ! i)"
  shows "range_status (evaluate_records df ! i) = core \<and> flags (evaluate_records df ! i) = []"
proof -
  have dh: "delta_hours (evaluate_records df ! i) = None"
    using assms(1,10) by (intro delta_hours_first) simp_all
  have "evaluate_records df ! i \<in> set (evaluate_records df)"
    using assms(1) by (simp add: length_evaluate_records)
  then obtain s where e: "evaluate_records df ! i = apply_classify s"
    using evaluate_records_member by blast
  have s: "temp_c s = Some t" "rh s = Some h" "outside_temp_c s = None" "outside_rh s = None"
    "delta_hours s = None"
    using assms(2,5,8,9) dh unfolding e by (simp_all add: fields_apply_classify)
  have "x \<notin> set (snd (classify s))" for x
    using assms(3,4,6,7) by (simp add: classify_flags s)
  then have "snd (classify s) = []" by (cases "snd (classify s)") auto
  then show ?thesis
    unfolding e using assms(3,4,6,7) by (simp add: fields_apply_classify classify_fst s)
qed

theorem compliant_first_reading_witness:
  "range_status (evaluate_records log_drift_1h ! 0) = core
   \<and> flags (evaluate_records log_drift_1h ! 0) = []"
proof -
  have f: "temp_c (evaluate_records log_drift_1h ! 0) = Some 20"
    "rh (evaluate_records log_drift_1h ! 0) = Some 50"
    "outside_temp_c (evaluate_records log_drift_1h ! 0) = None"
    "outside_rh (evaluate_records log_drift_1h ! 0) = None"
    by (simp_all add: log_drift_1h_def evaluate_defs)
  have l: "0 < length log_drift_1h" by (simp add: log_drift_1h_def)
  show ?thesis
    by (rule compliant_first_reading [OF l f(1) _ _ f(2) _ _ f(3) f(4)]) simp_all
qed

text \<open>
  Claim C9. The evaluated log has one record for every record of the input, and the
  columns of the input are unchanged in it: without the added columns, the evaluated
  log has the same records as the input, each as many times. It is ordered by location
  and then by time, ascending, which need not be the order of the input.
\<close>

theorem evaluation_keeps_records:
  "length (evaluate_records df) = length df
   \<and> mset (map row.truncate (evaluate_records df)) = mset df
   \<and> sorted_wrt row_le (map row.truncate (evaluate_records df))"
  by (simp add: length_evaluate_records truncate_evaluate_records mset_sort_values
      sorted_sort_values)

theorem evaluation_keeps_records_witness:
  "length (evaluate_records log_unsorted) = 3
   \<and> mset (map row.truncate (evaluate_records log_unsorted)) = mset log_unsorted
   \<and> sorted_wrt row_le (map row.truncate (evaluate_records log_unsorted))
   \<and> map id_col (evaluate_records log_unsorted) = [''c'', ''a'', ''b'']"
proof -
  have "map id_col (evaluate_records log_unsorted) = [''c'', ''a'', ''b'']"
    by (simp add: log_unsorted_def evaluate_defs)
  moreover have "length log_unsorted = 3" by (simp add: log_unsorted_def)
  ultimately show ?thesis
    using evaluation_keeps_records [of log_unsorted] by simp
qed

text \<open>
  Claim C10. A record of the evaluated log whose temperature and relative humidity are
  both missing has the status \<open>core\<close> and none of the flags "Temp out of range",
  "RH in outer band", "RH out of range" and "Mould risk"; it has no flag at all.
\<close>

theorem missing_readings_pass:
  assumes "e \<in> set (evaluate_records df)" and "temp_c e = None" and "rh e = None"
  shows "range_status e = core
    \<and> (Plain ''Temp out of range'', danger) \<notin> set (flags e)
    \<and> (Plain ''RH in outer band'', warn) \<notin> set (flags e)
    \<and> (Plain ''RH out of range'', danger) \<notin> set (flags e)
    \<and> (Plain ''Mould risk'', danger) \<notin> set (flags e)
    \<and> flags e = []"
proof -
  from assms(1) obtain s where e: "e = apply_classify s"
    using evaluate_records_member by blast
  with assms(2,3) have s: "temp_c s = None" "rh s = None"
    by (simp_all add: fields_apply_classify)
  have "x \<notin> set (snd (classify s))" for x
    by (simp add: classify_flags s)
  then have "snd (classify s) = []" by (cases "snd (classify s)") auto
  then show ?thesis
    unfolding e by (simp add: fields_apply_classify classify_fst s)
qed

theorem missing_readings_pass_witness:
  "temp_c (evaluate_records log_missing ! 0) = None \<and> rh (evaluate_records log_missing ! 0) = None
   \<and> range_status (evaluate_records log_missing ! 0) = core
   \<and> flags (evaluate_records log_missing ! 0) = []"
proof -
  have m: "evaluate_records log_missing ! 0 \<in> set (evaluate_records log_missing)"
    by (simp add: head_member log_missing_def)
  have h: "temp_c (evaluate_records log_missing ! 0) = None"
    "rh (evaluate_records log_missing ! 0) = None"
    by (simp_all add: log_missing_def evaluate_defs)
  show ?thesis
    using missing_readings_pass [OF m h] h by simp
qed

section \<open>Properties of the persistence reconciler\<close>

subsection \<open>Normalising the configuration twice\<close>

lemma strip_idem: "strip (strip s) = strip s"
proof -
  define t where "t = dropWhile is_space s"
  define u where "u = rev (dropWhile is_space (rev t))"
  have u: "strip s = u" by (simp add: strip_def t_def u_def)
  have tail_ok: "dropWhile is_space (rev u) = rev u"
    by (simp add: u_def)
  have "u @ rev (takeWhile is_space (rev t))
      = rev (takeWhile is_space (rev t) @ dropWhile is_space (rev t))"
    by (simp only: rev_append u_def)
  also have "\<dots> = t" by (simp only: takeWhile_dropWhile_id rev_rev_ident)
  finally have split: "t = u @ rev (takeWhile is_space (rev t))" by simp
  have head_ok: "dropWhile is_space u = u"
  proof (cases u)
    case Nil
    then show ?thesis by simp
  next
    case (Cons a as)
    with split obtain rest where "t = a # rest" by simp
    then have "t \<noteq> []" "hd t = a" by simp_all
    then have "\<not> is_space a" unfolding t_def using hd_dropWhile by metis
    with Cons show ?thesis by simp
  qed
  show ?thesis unfolding u by (simp add: strip_def [of u] head_ok tail_ok)
qed

lemma strip_defaults:
  "strip DEFAULT_SPACES_REGION = DEFAULT_SPACES_REGION"
  "strip DEFAULT_SPACES_OBJECT_KEY = DEFAULT_SPACES_OBJECT_KEY"
  by (simp_all add: strip_def DEFAULT_SPACES_REGION_def DEFAULT_SPACES_OBJECT_KEY_def is_space_def)

lemma or_default_strip_idem:
  "strip d = d \<Longrightarrow> or_default (strip (or_default (strip s) d)) d = or_default (strip s) d"
  by (simp add: or_default_def strip_idem)

lemma normalize_spaces_config_idem:
  "normalize_spaces_config (normalize_spaces_config c) = normalize_spaces_config c"
  by (simp add: normalize_spaces_config_def strip_idem or_default_strip_idem strip_defaults)

lemma spaces_enabled_normalize:
  "spaces_enabled (normalize_spaces_config c) = spaces_enabled c"
  by (simp add: spaces_enabled_def normalize_spaces_config_idem)

lemma spaces_client_eq:
  "spaces_client c w = (boto3_installed w \<and> spaces_enabled c)"
  by (simp add: spaces_client_def spaces_enabled_normalize)

subsection \<open>What the steps of loading and saving change\<close>

lemma read_local_keeps:
  "boto3_installed (snd (snd (read_local w))) = boto3_installed w"
  "session_config (snd (snd (read_local w))) = session_config w"
  "remote (snd (snd (read_local w))) = remote w"
  "get_fault (snd (snd (read_local w))) = get_fault w"
  "put_fault (snd (snd (read_local w))) = put_fault w"
  by (simp_all add: read_local_def write_local_def st_warning_def
      split: option.splits sum.splits exn.splits)

lemma read_local_unreadable:
  assumes "local_file w = Some file" and "read_csv file = Inl e"
  shows "read_local w =
      ([], True,
       if e = EmptyDataError then write_local [] w
       else st_warning ''Local CSV could not be read. Starting with an empty dataset.'' w)"
  using assms by (cases e) (simp_all add: read_local_def)

lemma load_data_from_spaces_preserves:
  assumes step: "\<And>m. P (st_warning m w)" and init: "P w"
  shows "P (snd (load_data_from_spaces c w))"
proof (cases "spaces_client (normalize_spaces_config c) w")
  case False
  with init show ?thesis by (simp add: load_data_from_spaces_def)
next
  case True
  show ?thesis
  proof (cases "get_object w")
    case (Inl e)
    with True step init show ?thesis
      by (cases e) (simp_all add: load_data_from_spaces_def)
  next
    case (Inr body)
    show ?thesis
    proof (cases body)
      case None
      with True Inr init show ?thesis by (simp add: load_data_from_spaces_def)
    next
      case (Some a)
      with True Inr step init show ?thesis
        by (cases a) (simp_all add: load_data_from_spaces_def)
    qed
  qed
qed

lemma load_data_from_spaces_keeps_local:
  "local_file (snd (load_data_from_spaces c w)) = local_file w"
  by (rule load_data_from_spaces_preserves) (simp_all add: st_warning_def)

lemma load_data_from_spaces_warnings:
  "set (warnings w) \<subseteq> set (warnings (snd (load_data_from_spaces c w)))"
  by (rule load_data_from_spaces_preserves) (auto simp: st_warning_def)

lemma load_data_from_spaces_disabled:
  "\<not> (boto3_installed w \<and> spaces_enabled c) \<Longrightarrow> load_data_from_spaces c w = (None, w)"
  by (simp add: load_data_from_spaces_def spaces_client_eq spaces_enabled_normalize)

lemma load_data_from_spaces_result:
  assumes "boto3_installed w" "spaces_enabled c"
  shows "fst (load_data_from_spaces c w) =
     (case get_object w of
        Inl e \<Rightarrow> None
      | Inr None \<Rightarrow> Some []
      | Inr (Some a) \<Rightarrow>
          (case a of Zero_bytes \<Rightarrow> Some [] | No_columns \<Rightarrow> Some [] | Corrupt \<Rightarrow> None
           | Table rs \<Rightarrow> Some rs))"
proof -
  have cl: "spaces_client (normalize_spaces_config c) w"
    using assms by (simp add: spaces_client_eq spaces_enabled_normalize)
  show ?thesis
  proof (cases "get_object w")
    case (Inl e)
    with cl show ?thesis
      by (cases e) (simp_all add: load_data_from_spaces_def)
  next
    case (Inr body)
    show ?thesis
    proof (cases body)
      case None
      with cl Inr show ?thesis by (simp add: load_data_from_spaces_def)
    next
      case (Some a)
      with cl Inr show ?thesis
        by (cases a) (simp_all add: load_data_from_spaces_def)
    qed
  qed
qed

lemma get_object_table:
  "get_object w = Inr (Some (Table rs)) \<longleftrightarrow>
     get_fault w = None \<and> remote w = Object (Some (Table rs))"
  by (simp add: get_object_def split: option.splits remote_object.splits)

lemma load_data_from_spaces_nonempty:
  "fst (load_data_from_spaces c w) = Some rs \<and> rs \<noteq> [] \<longleftrightarrow>
     boto3_installed w \<and> spaces_enabled c \<and> get_fault w = None
     \<and> remote w = Object (Some (Table rs)) \<and> rs \<noteq> []"
proof (cases "boto3_installed w \<and> spaces_enabled c")
  case False
  then show ?thesis using load_data_from_spaces_disabled [of w c] by auto
next
  case True
  then have r: "fst (load_data_from_spaces c w) =
     (case get_object w of
        Inl e \<Rightarrow> None
      | Inr None \<Rightarrow> Some []
      | Inr (Some a) \<Rightarrow>
          (case a of Zero_bytes \<Rightarrow> Some [] | No_columns \<Rightarrow> Some [] | Corrupt \<Rightarrow> None
           | Table rs \<Rightarrow> Some rs))"
    by (intro load_data_from_spaces_result) simp_all
  have "fst (load_data_from_spaces c w) = Some rs \<and> rs \<noteq> [] \<longleftrightarrow>
      get_object w = Inr (Some (Table rs)) \<and> rs \<noteq> []"
    unfolding r by (auto split: sum.splits option.splits artifact.splits)
  with True show ?thesis by (simp add: get_object_table)
qed

lemma load_data_from_spaces_table:
  assumes "boto3_installed w" "spaces_enabled c" "get_fault w = None"
    "remote w = Object (Some (Table rs))"
  shows "load_data_from_spaces c w = (Some rs, w)"
  using assms
  by (simp add: load_data_from_spaces_def spaces_client_eq spaces_enabled_normalize get_object_def)

lemma save_data_to_spaces_cases:
  "save_data_to_spaces df c w =
     (if boto3_installed w \<and> spaces_enabled c
      then (case put_fault w of
              None \<Rightarrow> (True, w\<lparr>remote := Object (Some (to_csv df))\<rparr>)
            | Some e \<Rightarrow>
                (False,
                 st_warning ''Saved locally, but failed to upload CSV to DigitalOcean Spaces.'' w))
      else (False, w))"
  by (simp add: save_data_to_spaces_def spaces_client_eq spaces_enabled_normalize put_object_def
      split: option.splits)

lemma save_data_to_spaces_keeps_local:
  "local_file (snd (save_data_to_spaces df c w)) = local_file w"
  "set (warnings w) \<subseteq> set (warnings (snd (save_data_to_spaces df c w)))"
  by (auto simp: save_data_to_spaces_cases st_warning_def split: option.splits)

lemma load_data_eq:
  assumes "read_local (w\<lparr>session_config := normalize_spaces_config (session_config w)\<rparr>)
             = (local_df, local_modified, w2)"
    and "load_data_from_spaces (normalize_spaces_config (session_config w)) w2 = (sp, w3)"
  shows "load_data w =
     (case sp of
        None \<Rightarrow>
          if local_modified \<and> spaces_enabled (session_config w)
          then (local_df,
                snd (save_data_to_spaces local_df (normalize_spaces_config (session_config w)) w3))
          else (local_df, w3)
      | Some sdf \<Rightarrow>
          if sdf \<noteq> [] then (sdf, write_local sdf w3)
          else if local_df \<noteq> []
          then (local_df,
                snd (save_data_to_spaces local_df (normalize_spaces_config (session_config w)) w3))
          else (sdf, w3))"
  using assms
  by (cases sp)
     (simp_all add: load_data_def get_spaces_config_def Let_def spaces_enabled_normalize)

lemma load_data_unreadable_eq:
  assumes "local_file w = Some file" and "read_csv file = Inl e"
    and c: "c = normalize_spaces_config (session_config w)"
    and w2: "w2 = (if e = EmptyDataError then write_local [] (w\<lparr>session_config := c\<rparr>)
       else st_warning ''Local CSV could not be read. Starting with an empty dataset.''
              (w\<lparr>session_config := c\<rparr>))"
    and ls: "load_data_from_spaces c w2 = (sp, w3)"
  shows "load_data w =
      (case sp of
         None \<Rightarrow>
           if spaces_enabled (session_config w)
           then ([], snd (save_data_to_spaces [] c w3)) else ([], w3)
       | Some sdf \<Rightarrow> if sdf \<noteq> [] then (sdf, write_local sdf w3) else ([], w3))"
proof -
  have "local_file (w\<lparr>session_config := c\<rparr>) = Some file" using assms(1) by simp
  then have rl: "read_local (w\<lparr>session_config := c\<rparr>) = ([], True, w2)"
    unfolding w2 using assms(2) by (rule read_local_unreadable)
  have "load_data w =
     (case sp of
        None \<Rightarrow>
          if True \<and> spaces_enabled (session_config w)
          then ([],
                snd (save_data_to_spaces [] (normalize_spaces_config (session_config w)) w3))
          else ([], w3)
      | Some sdf \<Rightarrow>
          if sdf \<noteq> [] then (sdf, write_local sdf w3)
          else if [] \<noteq> ([] :: row list)
          then ([],
                snd (save_data_to_spaces [] (normalize_spaces_config (session_config w)) w3))
          else (sdf, w3))"
    using rl ls unfolding c by (rule load_data_eq)
  then show ?thesis by (cases sp) (simp_all add: c)
qed

lemma unreadable_local_parts:
  assumes lf: "local_file w = Some file" and rd: "read_csv file = Inl e"
  shows "boto3_installed w \<and> spaces_enabled (session_config w) \<and> get_fault w = None
            \<and> remote w = Object (Some (Table rs)) \<and> rs \<noteq> [] \<Longrightarrow>
          fst (load_data w) = rs \<and> local_file (snd (load_data w)) = Some (to_csv rs)"
    and "\<not> (\<exists>rs. boto3_installed w \<and> spaces_enabled (session_config w) \<and> get_fault w = None
            \<and> remote w = Object (Some (Table rs)) \<and> rs \<noteq> []) \<Longrightarrow>
          fst (load_data w) = []
          \<and> local_file (snd (load_data w)) =
              (if e = EmptyDataError then Some (to_csv []) else Some file)"
    and "e \<noteq> EmptyDataError \<Longrightarrow> msg = ''Local CSV could not be read. Starting with an empty dataset.'' \<Longrightarrow>
          msg \<in> set (warnings (snd (load_data w)))"
proof -
  define c where "c = normalize_spaces_config (session_config w)"
  define w2 where "w2 = (if e = EmptyDataError then write_local [] (w\<lparr>session_config := c\<rparr>)
       else st_warning ''Local CSV could not be read. Starting with an empty dataset.''
              (w\<lparr>session_config := c\<rparr>))"
  obtain sp w3 where ls: "load_data_from_spaces c w2 = (sp, w3)"
    by (cases "load_data_from_spaces c w2") auto
  have ld: "load_data w =
      (case sp of
         None \<Rightarrow>
           if spaces_enabled (session_config w)
           then ([], snd (save_data_to_spaces [] c w3)) else ([], w3)
       | Some sdf \<Rightarrow> if sdf \<noteq> [] then (sdf, write_local sdf w3) else ([], w3))"
    using lf rd c_def w2_def ls by (rule load_data_unreadable_eq)
  have keep: "boto3_installed w2 = boto3_installed w" "get_fault w2 = get_fault w"
    "remote w2 = remote w"
    by (simp_all add: w2_def write_local_def st_warning_def)
  have lf2: "local_file w2 = (if e = EmptyDataError then Some (to_csv []) else Some file)"
    using lf by (simp add: w2_def write_local_def st_warning_def)
  have w3l: "local_file w3 = local_file w2"
    using load_data_from_spaces_keeps_local [of c w2] ls by simp
  have w3w: "set (warnings w2) \<subseteq> set (warnings w3)"
    using load_data_from_spaces_warnings [of w2 c] ls by simp
  have wins: "sp = Some rs \<and> rs \<noteq> [] \<longleftrightarrow>
      boto3_installed w \<and> spaces_enabled (session_config w) \<and> get_fault w = None
      \<and> remote w = Object (Some (Table rs)) \<and> rs \<noteq> []" for rs
    using load_data_from_spaces_nonempty [of c w2 rs] ls
    by (simp add: keep c_def spaces_enabled_normalize)
  show "fst (load_data w) = rs \<and> local_file (snd (load_data w)) = Some (to_csv rs)"
    if "boto3_installed w \<and> spaces_enabled (session_config w) \<and> get_fault w = None
            \<and> remote w = Object (Some (Table rs)) \<and> rs \<noteq> []"
  proof -
    from that have "sp = Some rs \<and> rs \<noteq> []" by (rule iffD2 [OF wins])
    then show ?thesis by (simp add: ld write_local_def)
  qed
  show "fst (load_data w) = []
          \<and> local_file (snd (load_data w)) =
              (if e = EmptyDataError then Some (to_csv []) else Some file)"
    if no: "\<not> (\<exists>rs. boto3_installed w \<and> spaces_enabled (session_config w) \<and> get_fault w = None
            \<and> remote w = Object (Some (Table rs)) \<and> rs \<noteq> [])"
  proof (cases sp)
    case None
    then show ?thesis
      by (simp add: ld save_data_to_spaces_keeps_local(1) w3l lf2)
  next
    case (Some sdf)
    have "sdf = []"
    proof (rule ccontr)
      assume "sdf \<noteq> []"
      with Some have "sp = Some sdf \<and> sdf \<noteq> []" by simp
      then have "boto3_installed w \<and> spaces_enabled (session_config w) \<and> get_fault w = None
            \<and> remote w = Object (Some (Table sdf)) \<and> sdf \<noteq> []" by (rule iffD1 [OF wins])
      with no show False by blast
    qed
    with Some show ?thesis by (simp add: ld w3l lf2)
  qed
  show "msg \<in> set (warnings (snd (load_data w)))"
    if ne: "e \<noteq> EmptyDataError"
      and msg: "msg = ''Local CSV could not be read. Starting with an empty dataset.''"
  proof -
    have "msg \<in> set (warnings w2)"
      using ne by (simp add: w2_def st_warning_def msg)
    with w3w have in3: "msg \<in> set (warnings w3)" by (rule subsetD)
    have in4: "msg \<in> set (warnings (snd (save_data_to_spaces [] c w3)))"
      using save_data_to_spaces_keeps_local(2) [of w3 "[]" c] in3 by (rule subsetD)
    show ?thesis
    proof (cases sp)
      case None
      with in3 in4 show ?thesis by (simp add: ld)
    next
      case (Some sdf)
      with in3 show ?thesis by (simp add: ld write_local_def)
    qed
  qed
qed

lemma sample_config_enabled: "spaces_enabled sample_config"
  by (simp add: spaces_enabled_def normalize_spaces_config_def sample_config_def strip_def
      is_space_def or_default_def DEFAULT_SPACES_REGION_def DEFAULT_SPACES_OBJECT_KEY_def)

section \<open>Claims about the persistence reconciler\<close>

text \<open>
  Claim C3. When sync is enabled, the store answers and the object holds a table with
  at least one row, \<^verbatim>\<open>load_data\<close> returns the rows of the store and leaves them in the
  local file, whatever the local file held before.
\<close>

theorem load_remote_wins:
  assumes "boto3_installed w" "spaces_enabled (session_config w)" "get_fault w = None"
    "remote w = Object (Some (Table rs))" "rs \<noteq> []"
  shows "fst (load_data w) = rs \<and> local_file (snd (load_data w)) = Some (to_csv rs)
    \<and> remote (snd (load_data w)) = remote w"
proof -
  define w1 where "w1 = w\<lparr>session_config := normalize_spaces_config (session_config w)\<rparr>"
  obtain local_df local_modified w2 where rl: "read_local w1 = (local_df, local_modified, w2)"
    by (cases "read_local w1") auto
  have w2: "boto3_installed w2" "get_fault w2 = None" "remote w2 = Object (Some (Table rs))"
    using read_local_keeps [of w1] rl assms by (simp_all add: w1_def)
  have "load_data_from_spaces (normalize_spaces_config (session_config w)) w2 = (Some rs, w2)"
    using w2 assms(2) by (intro load_data_from_spaces_table) (simp_all add: spaces_enabled_normalize)
  then show ?thesis
    using rl assms(4,5) w2
    by (simp add: load_data_def get_spaces_config_def Let_def w1_def [symmetric] write_local_def)
qed

theorem load_remote_wins_witness:
  "length local_rows = 3 \<and> length remote_rows = 5
   \<and> fst (load_data world_remote_wins) = remote_rows
   \<and> local_file (snd (load_data world_remote_wins)) = Some (to_csv remote_rows)"
proof -
  have h: "boto3_installed world_remote_wins" "spaces_enabled (session_config world_remote_wins)"
    "get_fault world_remote_wins = None"
    "remote world_remote_wins = Object (Some (Table remote_rows))"
    by (simp_all add: world_remote_wins_def sample_config_enabled)
  have ne: "remote_rows \<noteq> []" by (simp add: remote_rows_def)
  have "length local_rows = 3" "length remote_rows = 5"
    by (simp_all add: local_rows_def remote_rows_def)
  with load_remote_wins [OF h ne] show ?thesis by simp
qed

text \<open>
  Claim C4. After \<^verbatim>\<open>save_data\<close> the local file holds the log that was saved, whatever
  the upload does. When the upload raises, the only other effect is one warning; when it
  succeeds, the object of the store holds the log; when sync is off, nothing else changes.
\<close>

theorem save_keeps_local_write:
  "local_file (save_data df w) = Some (to_csv df)
   \<and> (boto3_installed w \<and> spaces_enabled (session_config w) \<and> put_fault w \<noteq> None \<longrightarrow>
        warnings (save_data df w) =
          warnings w @ [''Saved locally, but failed to upload CSV to DigitalOcean Spaces.'']
        \<and> remote (save_data df w) = remote w)
   \<and> (boto3_installed w \<and> spaces_enabled (session_config w) \<and> put_fault w = None \<longrightarrow>
        warnings (save_data df w) = warnings w
        \<and> remote (save_data df w) = Object (Some (to_csv df)))
   \<and> (\<not> (boto3_installed w \<and> spaces_enabled (session_config w)) \<longrightarrow>
        warnings (save_data df w) = warnings w \<and> remote (save_data df w) = remote w)"
  by (auto simp: save_data_def get_spaces_config_def Let_def save_data_to_spaces_cases
      write_local_def st_warning_def spaces_enabled_normalize split: option.splits)

theorem save_keeps_local_write_witness:
  "local_file (save_data remote_rows world_push_fails) = Some (to_csv remote_rows)
   \<and> warnings (save_data remote_rows world_push_fails) =
        [''Saved locally, but failed to upload CSV to DigitalOcean Spaces.'']
   \<and> remote (save_data remote_rows world_push_fails) = No_such_key
   \<and> local_file (save_data remote_rows world_remote_wins) = Some (to_csv remote_rows)
   \<and> remote (save_data local_rows world_remote_wins) = Object (Some (to_csv local_rows))"
proof -
  have f: "boto3_installed world_push_fails" "spaces_enabled (session_config world_push_fails)"
    "put_fault world_push_fails \<noteq> None" "warnings world_push_fails = []"
    "remote world_push_fails = No_such_key"
    by (simp_all add: world_push_fails_def sample_config_enabled)
  have g: "boto3_installed world_remote_wins" "spaces_enabled (session_config world_remote_wins)"
    "put_fault world_remote_wins = None"
    by (simp_all add: world_remote_wins_def sample_config_enabled)
  show ?thesis
    using save_keeps_local_write [of remote_rows world_push_fails]
      save_keeps_local_write [of remote_rows world_remote_wins]
      save_keeps_local_write [of local_rows world_remote_wins] f g
    by simp
qed

text \<open>
  Claim C6, amended. When the local file exists and cannot be read, \<^verbatim>\<open>load_data\<close> takes
  the local log as empty and returns a result: the rows of the store when sync is
  enabled, the store answers and holds at least one row (they are then written to the
  local file), and the empty log otherwise. When the read fails because the file holds
  no data (\<^verbatim>\<open>EmptyDataError\<close>) the local file is rewritten with the empty log; when it
  fails in any other way, a warning is shown and the local file is left as it is.
\<close>

theorem load_unreadable_local:
  assumes "local_file w = Some file" and "read_csv file = Inl e"
  shows "(boto3_installed w \<and> spaces_enabled (session_config w) \<and> get_fault w = None
            \<and> remote w = Object (Some (Table rs)) \<and> rs \<noteq> [] \<longrightarrow>
          fst (load_data w) = rs \<and> local_file (snd (load_data w)) = Some (to_csv rs))
       \<and> (\<not> (\<exists>rs. boto3_installed w \<and> spaces_enabled (session_config w) \<and> get_fault w = None
            \<and> remote w = Object (Some (Table rs)) \<and> rs \<noteq> []) \<longrightarrow>
          fst (load_data w) = []
          \<and> local_file (snd (load_data w)) =
              (if e = EmptyDataError then Some (to_csv []) else Some file))
       \<and> (e \<noteq> EmptyDataError \<longrightarrow>
          ''Local CSV could not be read. Starting with an empty dataset.''
            \<in> set (warnings (snd (load_data w))))"
proof (intro conjI impI)
  assume "boto3_installed w \<and> spaces_enabled (session_config w) \<and> get_fault w = None
            \<and> remote w = Object (Some (Table rs)) \<and> rs \<noteq> []"
  then have r: "fst (load_data w) = rs \<and> local_file (snd (load_data w)) = Some (to_csv rs)"
    by (rule unreadable_local_parts(1) [OF assms])
  from r show "fst (load_data w) = rs" ..
  from r show "local_file (snd (load_data w)) = Some (to_csv rs)" ..
next
  assume "\<not> (\<exists>rs. boto3_installed w \<and> spaces_enabled (session_config w) \<and> get_fault w = None
            \<and> remote w = Object (Some (Table rs)) \<and> rs \<noteq> [])"
  then have r: "fst (load_data w) = []
          \<and> local_file (snd (load_data w)) =
              (if e = EmptyDataError then Some (to_csv []) else Some file)"
    by (rule unreadable_local_parts(2) [OF assms])
  from r show "fst (load_data w) = []" ..
  from r show "local_file (snd (load_data w)) =
              (if e = EmptyDataError then Some (to_csv []) else Some file)" ..
next
  assume "e \<noteq> EmptyDataError"
  then show "''Local CSV could not be read. Starting with an empty dataset.''
            \<in> set (warnings (snd (load_data w)))"
    by (rule unreadable_local_parts(3) [OF assms]) (rule refl)
qed

theorem load_unreadable_local_witness:
  "fst (load_data world_blank_local) = []
   \<and> local_file (snd (load_data world_blank_local)) = Some (to_csv [])
   \<and> fst (load_data world_corrupt_local) = []
   \<and> local_file (snd (load_data world_corrupt_local)) = Some Corrupt
   \<and> ''Local CSV could not be read. Starting with an empty dataset.''
        \<in> set (warnings (snd (load_data world_corrupt_local)))"
proof -
  have b: "local_file world_blank_local = Some Zero_bytes"
    "\<not> (\<exists>rs. boto3_installed world_blank_local
       \<and> spaces_enabled (session_config world_blank_local) \<and> get_fault world_blank_local = None
       \<and> remote world_blank_local = Object (Some (Table rs)) \<and> rs \<noteq> [])"
    by (simp_all add: world_blank_local_def)
  have c: "local_file world_corrupt_local = Some Corrupt"
    "\<not> (\<exists>rs. boto3_installed world_corrupt_local
       \<and> spaces_enabled (session_config world_corrupt_local) \<and> get_fault world_corrupt_local = None
       \<and> remote world_corrupt_local = Object (Some (Table rs)) \<and> rs \<noteq> [])"
    by (simp_all add: world_corrupt_local_def)
  have rb: "read_csv Zero_bytes = Inl EmptyDataError" and rc: "read_csv Corrupt = Inl OtherError"
    by simp_all
  show ?thesis
    using load_unreadable_local [OF b(1) rb] load_unreadable_local [OF c(1) rc] b(2) c(2)
    by simp
qed

text \<open>
  The claim as the specification words it has every unreadable local file rewritten
  with the empty log. A corrupt local file, with sync off, is still the same corrupt file
  after \<^verbatim>\<open>load_data\<close>.
\<close>

theorem load_corrupt_local_counterexample:
  "local_file world_corrupt_local = Some Corrupt
   \<and> read_csv Corrupt = Inl OtherError
   \<and> fst (load_data world_corrupt_local) = []
   \<and> local_file (snd (load_data world_corrupt_local)) = Some Corrupt
   \<and> local_file (snd (load_data world_corrupt_local)) \<noteq> Some (to_csv [])"
proof -
  have c: "local_file world_corrupt_local = Some Corrupt"
    by (simp add: world_corrupt_local_def)
  have n: "\<not> (\<exists>rs. boto3_installed world_corrupt_local
       \<and> spaces_enabled (session_config world_corrupt_local) \<and> get_fault world_corrupt_local = None
       \<and> remote world_corrupt_local = Object (Some (Table rs)) \<and> rs \<noteq> [])"
    by (simp add: world_corrupt_local_def)
  have rc: "read_csv Corrupt = Inl OtherError" by simp
  from unreadable_local_parts(2) [OF c rc n] c rc show ?thesis
    by (simp add: to_csv_def)
qed

section \<open>Claims about the outside conditions provider\<close>

text \<open>The failures that the source handles.\<close>

lemma fetch_handled_failures:
  "fetch_outside_conditions Urlopen_raises = Inr None"
  "status \<noteq> 200 \<Longrightarrow> fetch_outside_conditions (Response status body) = Inr None"
  "fetch_outside_conditions (Response 200 None) = Inr None"
  "map_of (rev members) ''current'' = None \<Longrightarrow>
     fetch_outside_conditions (Response 200 (Some (JObject members))) = Inr None"
  "map_of (rev members) ''current'' = Some current \<Longrightarrow> falsy current \<Longrightarrow>
     fetch_outside_conditions (Response 200 (Some (JObject members))) = Inr None"
  by (simp_all add: fetch_outside_conditions_def)

text \<open>The call raises exactly when the status is 200 and the body is JSON, but the body
  is not an object, or its member \<^verbatim>\<open>current\<close> is neither empty nor an object.\<close>

lemma py_get_raises: "py_get v key = Inl e \<longleftrightarrow> e = AttributeError \<and> (\<forall>members. v \<noteq> JObject members)"
  by (cases v) auto

lemma fetch_raises_iff:
  "fetch_outside_conditions http = Inl e \<longleftrightarrow>
     e = AttributeError \<and>
     (\<exists>status data. http = Response status (Some data) \<and> status = 200 \<and>
        ((\<forall>members. data \<noteq> JObject members)
         \<or> (\<exists>current. py_get data ''current'' = Inr current \<and> \<not> falsy current
               \<and> (\<forall>members. current \<noteq> JObject members))))"
proof (cases http)
  case Urlopen_raises
  then show ?thesis by (simp add: fetch_outside_conditions_def)
next
  case (Response status body)
  show ?thesis
  proof (cases "status = 200")
    case False
    with Response show ?thesis by (simp add: fetch_outside_conditions_def)
  next
    case True
    show ?thesis
    proof (cases body)
      case None
      with Response True show ?thesis by (simp add: fetch_outside_conditions_def)
    next
      case (Some data)
      show ?thesis
      proof (cases data)
        case (JObject ms)
        define current where
          "current = (case map_of (rev ms) ''current'' of None \<Rightarrow> JNull | Some v \<Rightarrow> v)"
        have g: "py_get data ''current'' = Inr current"
          by (simp add: JObject current_def)
        show ?thesis
          using Response True Some g JObject
          by (cases current) (auto simp: fetch_outside_conditions_def)
      qed (use Response True Some in \<open>auto simp: fetch_outside_conditions_def\<close>)
    qed
  qed
qed

text \<open>
  Claim C5. \<^verbatim>\<open>fetch_outside_conditions\<close> is to return \<^verbatim>\<open>None\<close> on every failure. It does so
  when the request raises, when the status is not 200, when the body is not JSON and
  when the JSON object has no member \<^verbatim>\<open>current\<close>, as \<open>fetch_handled_failures\<close> shows. A body
  that is JSON but not an object, or whose member \<^verbatim>\<open>current\<close> is neither empty nor an
  object, has no current-conditions block either, and on it the call of \<^verbatim>\<open>get\<close>, which
  stands outside the \<^verbatim>\<open>try\<close> block, raises \<^verbatim>\<open>AttributeError\<close>.
\<close>

theorem fetch_raises_on_non_object:
  "fetch_outside_conditions (Response 200 (Some (JArray []))) = Inl AttributeError
   \<and> fetch_outside_conditions (Response 200 (Some JNull)) = Inl AttributeError
   \<and> fetch_outside_conditions (Response 200 (Some (JObject [(''current'', JString ''n/a'')])))
       = Inl AttributeError"
  by (simp add: fetch_outside_conditions_def)

end
